theory Spec2Isabelle
  imports Main "HOL-Library.Sublist"
begin

section \<open>Python values, exceptions and effects\<close>

text \<open>
  The repository is two Python modules: \<^verbatim>\<open>src/indexing.py\<close> (index construction over
  Weaviate and llama-index) and \<^verbatim>\<open>api/main.py\<close> (the FastAPI handlers). Exceptions are
  values of \<open>exn\<close>; a computation that may raise returns \<open>exn + 'a\<close> with \<open>Inl\<close> the
  raised exception. \<open>str_exn\<close> is Python's \<^verbatim>\<open>str(e)\<close> for an exception built from one
  message.
\<close>

datatype exn =
  ValueError string
| TypeError string
| OSError string
| FileNotFoundError string
| LookupError string
| RuntimeError string

fun str_exn :: "exn \<Rightarrow> string" where
  "str_exn (ValueError m) = m"
| "str_exn (TypeError m) = m"
| "str_exn (OSError m) = m"
| "str_exn (FileNotFoundError m) = m"
| "str_exn (LookupError m) = m"
| "str_exn (RuntimeError m) = m"

abbreviation squote :: string where
  "squote \<equiv> [CHR 0x27]"

abbreviation newline :: string where
  "newline \<equiv> [CHR 0x0A]"

text \<open>\<^verbatim>\<open>sep.join(xs)\<close> on strings.\<close>

fun str_join :: "string \<Rightarrow> string list \<Rightarrow> string" where
  "str_join sep [] = []"
| "str_join sep [x] = x"
| "str_join sep (x # y # ys) = x @ sep @ str_join sep (y # ys)"

text \<open>\<^verbatim>\<open>str(n)\<close> for a non-negative integer, in decimal.\<close>

definition digit_char :: "nat \<Rightarrow> char" where
  "digit_char d = ''0123456789'' ! d"

fun str_nat :: "nat \<Rightarrow> string" where
  "str_nat n = (if n < 10 then [digit_char n] else str_nat (n div 10) @ [digit_char (n mod 10)])"

section \<open>Paths and the file system that \<^verbatim>\<open>pathlib\<close> reads\<close>

text \<open>
  A path is a string. \<^verbatim>\<open>Path(s)\<close> (POSIX) parses it into an anchor (empty for a
  relative path, one slash, or two slashes when the string starts with exactly two) and
  its parts: the components between slashes, with empty components and \<^verbatim>\<open>.\<close> dropped
  and \<^verbatim>\<open>..\<close> kept. \<^verbatim>\<open>str\<close> joins them again, and gives \<^verbatim>\<open>.\<close> for the empty relative
  path.
\<close>

fun split_slash :: "string \<Rightarrow> string list" where
  "split_slash [] = [[]]"
| "split_slash (c # cs) =
     (if c = CHR ''/'' then [] # split_slash cs
      else (case split_slash cs of
              [] \<Rightarrow> [[c]]
            | w # ws \<Rightarrow> (c # w) # ws))"

record pure_path =
  anchor :: string
  parts :: "string list"

definition Path :: "string \<Rightarrow> pure_path" where
  "Path s =
     \<lparr>anchor = (if prefix ''//'' s \<and> \<not> prefix ''///'' s then ''//''
                else if prefix ''/'' s then ''/''
                else []),
      parts = filter (\<lambda>c. c \<noteq> [] \<and> c \<noteq> ''.'') (split_slash s)\<rparr>"

definition str_path :: "pure_path \<Rightarrow> string" where
  "str_path p =
     (if anchor p = [] \<and> parts p = [] then ''.''
      else anchor p @ str_join ''/'' (parts p))"

text \<open>\<^verbatim>\<open>path / name\<close>, for a name that is a single component.\<close>

definition child :: "pure_path \<Rightarrow> string \<Rightarrow> pure_path" where
  "child p name = p\<lparr>parts := parts p @ [name]\<rparr>"

text \<open>
  The file system is a tree: a directory lists its entries by name; every other node is
  a regular file or a special file (a socket, a device, a pipe). Symbolic links are taken
  as already resolved, as \<^verbatim>\<open>exists\<close>, \<^verbatim>\<open>is_dir\<close> and \<^verbatim>\<open>is_file\<close> follow them. A place in
  the tree is a node with its ancestors, the nearest first. The operating system resolves
  a path component by component from the root (an anchored path) or from the working
  directory (a relative one): \<^verbatim>\<open>.\<close> stays, \<^verbatim>\<open>..\<close> goes to the parent (the root is its
  own parent), a name goes to the entry of that name; a component after anything but a
  directory fails.
\<close>

datatype fsnode =
  RegularFile
| Special
| Directory "(string \<times> fsnode) list"

type_synonym place = "fsnode list \<times> fsnode"

record file_system =
  root_dir :: fsnode
  working_dir :: place

fun walk :: "fsnode list \<Rightarrow> fsnode \<Rightarrow> string list \<Rightarrow> place option" where
  "walk ancestors n [] = Some (ancestors, n)"
| "walk ancestors (Directory entries) (c # cs) =
     (if c = ''.'' then walk ancestors (Directory entries) cs
      else if c = ''..''
      then (case ancestors of
              [] \<Rightarrow> walk [] (Directory entries) cs
            | parent # further \<Rightarrow> walk further parent cs)
      else (case map_of entries c of
              None \<Rightarrow> None
            | Some m \<Rightarrow> walk (Directory entries # ancestors) m cs))"
| "walk ancestors RegularFile (c # cs) = None"
| "walk ancestors Special (c # cs) = None"

definition start_place :: "file_system \<Rightarrow> pure_path \<Rightarrow> place" where
  "start_place fs p = (if anchor p = [] then working_dir fs else ([], root_dir fs))"

definition resolve :: "file_system \<Rightarrow> pure_path \<Rightarrow> fsnode option" where
  "resolve fs p =
     map_option snd (walk (fst (start_place fs p)) (snd (start_place fs p)) (parts p))"

definition path_exists :: "file_system \<Rightarrow> pure_path \<Rightarrow> bool" where
  "path_exists fs p = (resolve fs p \<noteq> None)"

definition path_is_dir :: "file_system \<Rightarrow> pure_path \<Rightarrow> bool" where
  "path_is_dir fs p =
     (case resolve fs p of Some (Directory entries) \<Rightarrow> True | _ \<Rightarrow> False)"

definition path_is_file :: "file_system \<Rightarrow> pure_path \<Rightarrow> bool" where
  "path_is_file fs p = (resolve fs p = Some RegularFile)"

text \<open>
  The names a directory lists: each entry once, in the directory's order; \<^verbatim>\<open>.\<close> and
  \<^verbatim>\<open>..\<close> are never listed. \<^verbatim>\<open>path.glob("*")\<close> gives one path per listed name, hidden
  entries included, and nothing when the path is not a directory.
\<close>

definition listing :: "(string \<times> fsnode) list \<Rightarrow> string list" where
  "listing entries = remdups (filter (\<lambda>c. c \<noteq> ''.'' \<and> c \<noteq> ''..'') (map fst entries))"

definition path_glob_star :: "file_system \<Rightarrow> pure_path \<Rightarrow> pure_path list" where
  "path_glob_star fs p =
     (case resolve fs p of
        Some (Directory entries) \<Rightarrow> map (child p) (listing entries)
      | _ \<Rightarrow> [])"

subsection \<open>\<^verbatim>\<open>get_all_files_from_directory\<close> of \<^verbatim>\<open>src/indexing.py\<close>\<close>

text \<open>
  \<^verbatim>\<open>
  path = Path(directory_path)
  if not path.exists() or not path.is_dir():
      raise ValueError(f"Invalid directory path: {directory_path}")
  return [str(file) for file in path.glob("*") if file.is_file()]
  \<close>
\<close>

definition get_all_files_from_directory :: "file_system \<Rightarrow> string \<Rightarrow> exn + string list" where
  "get_all_files_from_directory fs directory_path =
     (let path = Path directory_path in
      if \<not> path_exists fs path \<or> \<not> path_is_dir fs path
      then Inl (ValueError (''Invalid directory path: '' @ directory_path))
      else Inr (map str_path (filter (path_is_file fs) (path_glob_star fs path))))"

section \<open>The world the indexing module acts on\<close>

text \<open>
  A document is its text and a chunk (node) is its text. The world holds the Weaviate
  collections (name and stored chunks, in creation order), the paths that exist on the
  disk where \<^verbatim>\<open>save_dir\<close> is looked up (each with the index persisted in it, or
  \<open>None\<close> for a file or a directory that holds no index), and the trace of what the
  process did to its connection and its standard output.
\<close>

type_synonym document = string
type_synonym node = string

record stored_index =
  vector_nodes :: "node list"
  docstore :: "node list"

datatype event =
  Connected
| Closed
| Printed string

record world =
  collections :: "(string \<times> node list) list"
  disk :: "(string \<times> stored_index option) list"
  events :: "event list"

text \<open>
  The libraries are parameters. Each call into Weaviate or llama-index may raise: \<open>fault\<close>
  gives, per call site, the exception it raises (\<open>None\<close> when it returns).
\<close>

datatype lib_call =
  ConnectToLocal
| CollectionsExists
| CollectionsDelete
| CollectionsCreate
| NewWeaviateVectorStore
| StorageContextFromDefaults
| NewVectorStoreIndex
| ServiceContextFromDefaults
| DocstoreAddDocuments
| Persist
| LoadIndexFromStorage

record libs =
  fault :: "lib_call \<Rightarrow> exn option"
  load_data :: "string list \<Rightarrow> exn + document list"
  sentence_splitter :: "int \<Rightarrow> int \<Rightarrow> document list \<Rightarrow> exn + node list"
  written_before_fault :: nat
  hierarchical_node_parser :: "int list \<Rightarrow> document list \<Rightarrow> exn + node list"
  get_leaf_nodes :: "node list \<Rightarrow> node list"
  sentence_window_node_parser :: "document list \<Rightarrow> exn + node list"

type_synonym 'a action = "world \<Rightarrow> (exn + 'a) \<times> world"

definition ok :: "'a \<Rightarrow> 'a action" where
  "ok a w = (Inr a, w)"

definition raise :: "exn \<Rightarrow> 'a action" where
  "raise e w = (Inl e, w)"

definition and_then :: "'a action \<Rightarrow> ('a \<Rightarrow> 'b action) \<Rightarrow> 'b action" where
  "and_then m f w = (case m w of (Inl e, w') \<Rightarrow> (Inl e, w') | (Inr a, w') \<Rightarrow> f a w')"

definition lift :: "exn + 'a \<Rightarrow> 'a action" where
  "lift r w = (r, w)"

definition lib_call :: "libs \<Rightarrow> lib_call \<Rightarrow> unit action" where
  "lib_call env site w = (case fault env site of Some e \<Rightarrow> (Inl e, w) | None \<Rightarrow> (Inr (), w))"

definition emit :: "event \<Rightarrow> world \<Rightarrow> world" where
  "emit ev w = w\<lparr>events := events w @ [ev]\<rparr>"

definition print :: "string \<Rightarrow> unit action" where
  "print s w = (Inr (), emit (Printed s) w)"

subsection \<open>The Weaviate client\<close>

definition connect_to_local :: "libs \<Rightarrow> unit action" where
  "connect_to_local env w =
     (case fault env ConnectToLocal of
        Some e \<Rightarrow> (Inl e, w)
      | None \<Rightarrow> (Inr (), emit Connected w))"

definition client_close :: "world \<Rightarrow> world" where
  "client_close w = emit Closed w"

definition collections_exists :: "libs \<Rightarrow> string \<Rightarrow> bool action" where
  "collections_exists env name =
     and_then (lib_call env CollectionsExists)
       (\<lambda>_ w. (Inr (name \<in> set (map fst (collections w))), w))"

definition collections_delete :: "libs \<Rightarrow> string \<Rightarrow> unit action" where
  "collections_delete env name =
     and_then (lib_call env CollectionsDelete)
       (\<lambda>_ w. (Inr (), w\<lparr>collections := filter (\<lambda>c. fst c \<noteq> name) (collections w)\<rparr>))"

text \<open>Weaviate refuses to create a collection whose name is taken.\<close>

definition collections_create :: "libs \<Rightarrow> string \<Rightarrow> unit action" where
  "collections_create env name =
     and_then (lib_call env CollectionsCreate)
       (\<lambda>_ w. if name \<in> set (map fst (collections w))
              then (Inl (RuntimeError (''Collection already exists: '' @ name)), w)
              else (Inr (), w\<lparr>collections := collections w @ [(name, [])]\<rparr>))"

text \<open>
  \<^verbatim>\<open>WeaviateVectorStore(weaviate_client=client, index_name=index_name)\<close> creates the
  collection when it is missing.
\<close>

definition new_weaviate_vector_store :: "libs \<Rightarrow> string \<Rightarrow> unit action" where
  "new_weaviate_vector_store env name =
     and_then (lib_call env NewWeaviateVectorStore)
       (\<lambda>_ w. if name \<in> set (map fst (collections w)) then (Inr (), w)
              else (Inr (), w\<lparr>collections := collections w @ [(name, [])]\<rparr>))"

definition add_nodes :: "string \<Rightarrow> node list \<Rightarrow> world \<Rightarrow> world" where
  "add_nodes name nodes w =
     w\<lparr>collections := map (\<lambda>c. if fst c = name then (fst c, snd c @ nodes) else c) (collections w)\<rparr>"

text \<open>
  \<^verbatim>\<open>VectorStoreIndex(nodes, storage_context=storage_context)\<close> embeds the nodes and adds
  them to the store's collection. When it raises, the nodes written before the failure
  stay in the collection.
\<close>

definition new_vector_store_index :: "libs \<Rightarrow> string \<Rightarrow> node list \<Rightarrow> unit action" where
  "new_vector_store_index env name nodes w =
     (case fault env NewVectorStoreIndex of
        Some e \<Rightarrow> (Inl e, add_nodes name (take (written_before_fault env) nodes) w)
      | None \<Rightarrow> (Inr (), add_nodes name nodes w))"

section \<open>Index construction (\<^verbatim>\<open>src/indexing.py\<close>)\<close>

subsection \<open>\<^verbatim>\<open>create_document_index\<close>: fixed-size chunks into a Weaviate collection\<close>

text \<open>
  The statements of the \<^verbatim>\<open>try\<close> block after the client is bound, in the source's order:
  drop the collection if it exists, create it, load the documents, split them, and write
  the nodes through a \<^verbatim>\<open>VectorStoreIndex\<close> over the collection.
\<close>

definition index_documents :: "libs \<Rightarrow> string list \<Rightarrow> string \<Rightarrow> int \<Rightarrow> int \<Rightarrow> unit action" where
  "index_documents env input_files index_name chunk_size chunk_overlap =
     and_then (collections_exists env index_name) (\<lambda>existing.
     and_then (if existing
               then and_then (collections_delete env index_name)
                      (\<lambda>_. print (''Existing collection '' @ index_name @ '' has been deleted.''))
               else ok ()) (\<lambda>_.
     and_then (collections_create env index_name) (\<lambda>_.
     and_then (print ''documents collection has been created.'') (\<lambda>_.
     and_then (lift (load_data env input_files)) (\<lambda>documents.
     and_then (lift (sentence_splitter env chunk_size chunk_overlap documents)) (\<lambda>nodes.
     and_then (new_weaviate_vector_store env index_name) (\<lambda>_.
     and_then (lib_call env StorageContextFromDefaults) (\<lambda>_.
     and_then (new_vector_store_index env index_name nodes) (\<lambda>_.
     print ''All vector data has been written to Weaviate.'')))))))))"

text \<open>
  The \<^verbatim>\<open>try\<close> block: its outcome, whether \<^verbatim>\<open>client\<close> is among the locals when it is left
  (it is bound exactly when \<^verbatim>\<open>weaviate.connect_to_local()\<close> returned), and the world.
\<close>

definition try_block ::
  "libs \<Rightarrow> string list \<Rightarrow> string \<Rightarrow> int \<Rightarrow> int \<Rightarrow> world \<Rightarrow> (exn + unit) \<times> bool \<times> world" where
  "try_block env input_files index_name chunk_size chunk_overlap w =
     (case connect_to_local env w of
        (Inl e, w1) \<Rightarrow> (Inl e, False, w1)
      | (Inr client, w1) \<Rightarrow>
          (case index_documents env input_files index_name chunk_size chunk_overlap w1 of
             (r, w2) \<Rightarrow> (r, True, w2)))"

text \<open>
  \<^verbatim>\<open>except Exception as e: print(f"Error occurred: {str(e)}"); raise\<close>, then
  \<^verbatim>\<open>finally: if 'client' in locals(): client.close(); print(...)\<close>.
\<close>

definition create_document_index :: "libs \<Rightarrow> string list \<Rightarrow> string \<Rightarrow> int \<Rightarrow> int \<Rightarrow> unit action" where
  "create_document_index env input_files index_name chunk_size chunk_overlap w =
     (case try_block env input_files index_name chunk_size chunk_overlap w of
        (r, client_bound, w1) \<Rightarrow>
          (let w2 = (case r of
                       Inl e \<Rightarrow> emit (Printed (''Error occurred: '' @ str_exn e)) w1
                     | Inr _ \<Rightarrow> w1);
               w3 = (if client_bound
                     then emit (Printed ''Weaviate connection closed.'') (client_close w2)
                     else w2)
           in (r, w3)))"

text \<open>The chunks a build produces: the loaded documents, split.\<close>

definition produced_chunks :: "libs \<Rightarrow> string list \<Rightarrow> int \<Rightarrow> int \<Rightarrow> exn + node list" where
  "produced_chunks env input_files chunk_size chunk_overlap =
     (case load_data env input_files of
        Inl e \<Rightarrow> Inl e
      | Inr documents \<Rightarrow> sentence_splitter env chunk_size chunk_overlap documents)"

text \<open>The collections of a given name, and the events that concern the connection.\<close>

definition named :: "string \<Rightarrow> world \<Rightarrow> (string \<times> node list) list" where
  "named name w = filter (\<lambda>c. fst c = name) (collections w)"

definition others :: "string \<Rightarrow> world \<Rightarrow> (string \<times> node list) list" where
  "others name w = filter (\<lambda>c. fst c \<noteq> name) (collections w)"

fun is_connection_event :: "event \<Rightarrow> bool" where
  "is_connection_event Connected = True"
| "is_connection_event Closed = True"
| "is_connection_event (Printed s) = False"

subsection \<open>\<^verbatim>\<open>delete_document_collection\<close>\<close>

definition delete_document_collection :: "libs \<Rightarrow> string \<Rightarrow> unit action" where
  "delete_document_collection env index_name =
     and_then (connect_to_local env) (\<lambda>client.
     and_then (collections_delete env index_name) (\<lambda>_.
     and_then (print ''documents collection has been deleted.'') (\<lambda>_ w.
     (Inr (), client_close w))))"

subsection \<open>The persisted indexes of the sentence-window and auto-merging builders\<close>

definition embed_model_name :: string where
  "embed_model_name = ''local:/Users/Daglas/dalong.modelsets/bge-m3''"

text \<open>
  \<^verbatim>\<open>os.path.exists(save_dir)\<close> holds for whatever exists at the path, an index or not.
  \<^verbatim>\<open>persist\<close> creates the directory and writes the index into it.
  \<^verbatim>\<open>load_index_from_storage\<close> over a path that holds no index finds none of the
  store's files.
\<close>

definition os_path_exists :: "string \<Rightarrow> world \<Rightarrow> bool" where
  "os_path_exists save_dir w = (save_dir \<in> set (map fst (disk w)))"

definition persist :: "libs \<Rightarrow> string \<Rightarrow> stored_index \<Rightarrow> unit action" where
  "persist env persist_dir idx =
     and_then (lib_call env Persist)
       (\<lambda>_ w. (Inr (), w\<lparr>disk :=
                  filter (\<lambda>d. fst d \<noteq> persist_dir) (disk w) @ [(persist_dir, Some idx)]\<rparr>))"

definition load_index_from_storage :: "libs \<Rightarrow> string \<Rightarrow> stored_index action" where
  "load_index_from_storage env persist_dir =
     and_then (lib_call env LoadIndexFromStorage)
       (\<lambda>_ w. case map_of (disk w) persist_dir of
                Some (Some idx) \<Rightarrow> (Inr idx, w)
              | _ \<Rightarrow> (Inl (FileNotFoundError (''No such file or directory: '' @ persist_dir)), w))"

text \<open>
  \<^verbatim>\<open>build_sentence_window_index(document, llm, embed_model=embed_model_name,
  save_dir="sentence_index")\<close>: builds and persists when \<^verbatim>\<open>save_dir\<close> does not exist, and
  loads what \<^verbatim>\<open>save_dir\<close> holds otherwise.
\<close>

definition build_sentence_window_index ::
  "libs \<Rightarrow> document \<Rightarrow> string \<Rightarrow> string \<Rightarrow> string \<Rightarrow> stored_index action" where
  "build_sentence_window_index env doc llm embed_model save_dir =
     and_then (lib_call env ServiceContextFromDefaults) (\<lambda>sentence_context w.
       if \<not> os_path_exists save_dir w
       then and_then (lift (sentence_window_node_parser env [doc])) (\<lambda>nodes.
            and_then (lib_call env NewVectorStoreIndex) (\<lambda>_.
            and_then (persist env save_dir \<lparr>vector_nodes = nodes, docstore = nodes\<rparr>) (\<lambda>_.
            ok \<lparr>vector_nodes = nodes, docstore = nodes\<rparr>))) w
       else load_index_from_storage env save_dir w)"

text \<open>
  \<^verbatim>\<open>build_automerging_index(documents, llm, embed_model=embed_model_name,
  save_dir="merging_index", chunk_sizes=None)\<close>. \<^verbatim>\<open>chunk_sizes or [2048, 512, 128]\<close> takes
  the default for \<^verbatim>\<open>None\<close> and for the empty list. The leaf nodes are embedded into the
  index's own in-memory store; no Weaviate collection is involved.
\<close>

definition build_automerging_index ::
  "libs \<Rightarrow> document list \<Rightarrow> string \<Rightarrow> string \<Rightarrow> string \<Rightarrow> int list option \<Rightarrow> stored_index action" where
  "build_automerging_index env documents llm embed_model save_dir chunk_sizes =
     (let chunk_sizes = (case chunk_sizes of
                           None \<Rightarrow> [2048, 512, 128]
                         | Some [] \<Rightarrow> [2048, 512, 128]
                         | Some (c # cs) \<Rightarrow> c # cs)
      in
      and_then (lift (hierarchical_node_parser env chunk_sizes documents)) (\<lambda>nodes.
      and_then (lib_call env ServiceContextFromDefaults) (\<lambda>merging_context.
      and_then (lib_call env StorageContextFromDefaults) (\<lambda>storage_context.
      and_then (lib_call env DocstoreAddDocuments) (\<lambda>_ w.
        if \<not> os_path_exists save_dir w
        then and_then (lib_call env NewVectorStoreIndex) (\<lambda>_.
             and_then (persist env save_dir
                         \<lparr>vector_nodes = get_leaf_nodes env nodes, docstore = nodes\<rparr>) (\<lambda>_.
             ok \<lparr>vector_nodes = get_leaf_nodes env nodes, docstore = nodes\<rparr>)) w
        else load_index_from_storage env save_dir w)))))"

section \<open>The HTTP handlers (\<^verbatim>\<open>api/main.py\<close>)\<close>

subsection \<open>What the handlers import\<close>

text \<open>
  \<^verbatim>\<open>api/main.py\<close> imports \<^verbatim>\<open>get_chat_file_name\<close>, \<^verbatim>\<open>get_all_files_from_directory\<close>,
  \<^verbatim>\<open>print_data_sources\<close> and \<^verbatim>\<open>get_timestamp\<close> from \<^verbatim>\<open>src.utils\<close>,
  \<^verbatim>\<open>basic_query_from_documents\<close> from \<^verbatim>\<open>src.retrieval\<close>, and
  \<^verbatim>\<open>build_basic_fixed_size_index\<close> from \<^verbatim>\<open>src.indexing\<close>. The first two modules are
  not among the sources and \<^verbatim>\<open>src/indexing.py\<close> defines no
  \<^verbatim>\<open>build_basic_fixed_size_index\<close> (its \<^verbatim>\<open>get_all_files_from_directory\<close> is another
  function than the one imported: it takes no \<^verbatim>\<open>file_extension\<close>), so the handlers
  take these names as parameters, each free to raise. The language model's
  \<^verbatim>\<open>model.stream\<close> gives the contents of the chunks it produces and the exception that
  ends the iteration early, if any; \<open>open_for_writing\<close> is the exception \<^verbatim>\<open>open(path, 'w')\<close>
  raises, if any.
\<close>

record source_node =
  node_text :: string
  node_index :: string

record deps =
  utils_get_all_files_from_directory :: "string \<Rightarrow> string option \<Rightarrow> exn + string list"
  build_basic_fixed_size_index :: "string list \<Rightarrow> string \<Rightarrow> int option \<Rightarrow> int option \<Rightarrow> unit action"
  get_timestamp :: "exn + string"
  get_chat_file_name :: "string \<Rightarrow> exn + string"
  print_data_sources :: "source_node list \<Rightarrow> exn + string"
  basic_query_from_documents :: "string \<Rightarrow> string list \<Rightarrow> int \<Rightarrow> exn + source_node list"
  model_stream :: "string \<Rightarrow> string list \<times> exn option"
  open_for_writing :: "string \<Rightarrow> exn option"

subsection \<open>Requests and responses\<close>

text \<open>
  The pydantic models. \<^verbatim>\<open>input_path: Union[List[str], str]\<close> is a directory path or a
  list of file paths.
\<close>

record query_request =
  query_question :: string
  query_index_names :: "string list"
  query_similarity_top_k :: int
  query_chat_record_dir :: string

record chat_request =
  chat_question :: string
  chat_chat_record_dir :: string

datatype input_path =
  DirectoryPath string
| FileList "string list"

record build_index_request =
  build_input_path :: input_path
  build_index_name :: string
  build_index_type :: string
  build_file_extension :: "string option"
  build_chunk_size :: "int option"
  build_chunk_overlap :: "int option"
  build_chunk_sizes :: "int list option"

datatype http_exception = HTTPException nat string

record build_index_response =
  response_status :: string
  response_message :: string
  response_num_files :: nat

text \<open>
  What a streamed request does, in order: the generator pulls a chunk from the model's
  iterator, yields a fragment to the caller, writes a file, prints. A
  \<^verbatim>\<open>StreamingResponse\<close> has status 200 unless told otherwise; its body is the generator,
  here the events it goes through when the server iterates it and the exception that
  ends it, if any.
\<close>

datatype stream_event =
  Pulled string
| Yielded string
| FileWritten string string
| Stdout string

record streaming_response =
  status_code :: nat
  media_type :: string
  body :: "stream_event list \<times> exn option"

subsection \<open>\<^verbatim>\<open>os.path.join\<close> (POSIX) on two strings\<close>

definition os_path_join :: "string \<Rightarrow> string \<Rightarrow> string" where
  "os_path_join a b =
     (if prefix ''/'' b then b
      else if a = [] \<or> suffix ''/'' a then a @ b
      else a @ ''/'' @ b)"

subsection \<open>\<^verbatim>\<open>/query\<close> and \<^verbatim>\<open>/chat\<close>\<close>

text \<open>
  \<^verbatim>\<open>
  for chunk in response:
      yield chunk.content
      full_response += chunk.content
  \<close>
  The loop gives its events and the accumulator it ends with.
\<close>

fun stream_loop :: "string list \<Rightarrow> string \<Rightarrow> stream_event list \<times> string" where
  "stream_loop [] full_response = ([], full_response)"
| "stream_loop (content # rest) full_response =
     (case stream_loop rest (full_response @ content) of
        (evs, full) \<Rightarrow> (Pulled content # Yielded content # evs, full))"

definition query_prompt :: "string \<Rightarrow> string \<Rightarrow> string" where
  "query_prompt context question =
     ''Use the following pieces of context to answer the question at the end.'' @ newline
       @ context @ newline @ ''Question: '' @ question @ '' ''"

definition query_record :: "string \<Rightarrow> string \<Rightarrow> string \<Rightarrow> string \<Rightarrow> string" where
  "query_record file_name question full_response print_data =
     file_name @ newline @ newline @ ''[question]:'' @ newline @ newline @ question
       @ newline @ newline @ ''[answer]:'' @ newline @ newline @ full_response
       @ newline @ newline @ ''[source_datas]:'' @ newline @ newline @ print_data"

definition chat_record :: "string \<Rightarrow> string \<Rightarrow> string \<Rightarrow> string" where
  "chat_record file_name question full_response =
     file_name @ newline @ newline @ ''[question]:'' @ newline @ newline @ question
       @ newline @ newline @ ''[answer]:'' @ newline @ newline @ full_response"

text \<open>
  The tail both generators share: iterate the model's stream, then write the record.
  A stream that fails ends the generator with that exception before the file is opened.
\<close>

definition stream_then_write ::
  "deps \<Rightarrow> string list \<times> exn option \<Rightarrow> string \<Rightarrow> (string \<Rightarrow> string)
     \<Rightarrow> stream_event list \<times> exn option" where
  "stream_then_write env response chat_record_file record_of =
     (case stream_loop (fst response) [] of
        (evs, full_response) \<Rightarrow>
          (case snd response of
             Some e \<Rightarrow> (evs, Some e)
           | None \<Rightarrow>
               (case open_for_writing env chat_record_file of
                  Some e \<Rightarrow> (evs, Some e)
                | None \<Rightarrow> (evs @ [FileWritten chat_record_file (record_of full_response)], None))))"

definition query_generate ::
  "deps \<Rightarrow> query_request \<Rightarrow> string \<Rightarrow> string \<Rightarrow> stream_event list \<times> exn option" where
  "query_generate env request file_name chat_record_file =
     (case basic_query_from_documents env (query_question request) (query_index_names request)
             (query_similarity_top_k request) of
        Inl e \<Rightarrow> ([], Some e)
      | Inr source_nodes \<Rightarrow>
          (let context = str_join newline (map node_text source_nodes) in
           case print_data_sources env source_nodes of
             Inl e \<Rightarrow> ([], Some e)
           | Inr print_data \<Rightarrow>
               (case stream_then_write env
                       (model_stream env (query_prompt context (query_question request)))
                       chat_record_file
                       (\<lambda>full_response.
                          query_record file_name (query_question request) full_response print_data) of
                  (evs, r) \<Rightarrow>
                    (Stdout (''Number of source nodes: '' @ str_nat (length source_nodes)) # evs, r))))"

definition chat_generate ::
  "deps \<Rightarrow> chat_request \<Rightarrow> string \<Rightarrow> string \<Rightarrow> stream_event list \<times> exn option" where
  "chat_generate env request file_name chat_record_file =
     stream_then_write env (model_stream env (chat_question request)) chat_record_file
       (\<lambda>full_response. chat_record file_name (chat_question request) full_response)"

text \<open>
  The handlers. The \<^verbatim>\<open>try\<close> block computes the file name and the path, defines the
  generator and returns the response built on it; the generator's body runs when the
  response is iterated, after the handler has returned.
\<close>

definition query_try :: "deps \<Rightarrow> query_request \<Rightarrow> exn + streaming_response" where
  "query_try env request =
     (case get_timestamp env of
        Inl e \<Rightarrow> Inl e
      | Inr timestamp \<Rightarrow>
          (case get_chat_file_name env (query_question request) of
             Inl e \<Rightarrow> Inl e
           | Inr name \<Rightarrow>
               (let file_name = timestamp @ ''RAG-'' @ name;
                    chat_record_file = os_path_join (query_chat_record_dir request) (file_name @ ''.md'')
                in Inr \<lparr>status_code = 200, media_type = ''text/plain'',
                        body = query_generate env request file_name chat_record_file\<rparr>)))"

definition query_from_documents_api :: "deps \<Rightarrow> query_request \<Rightarrow> http_exception + streaming_response" where
  "query_from_documents_api env request =
     (case query_try env request of
        Inl e \<Rightarrow> Inl (HTTPException 500 (str_exn e))
      | Inr response \<Rightarrow> Inr response)"

definition chat_try :: "deps \<Rightarrow> chat_request \<Rightarrow> exn + streaming_response" where
  "chat_try env request =
     (case get_timestamp env of
        Inl e \<Rightarrow> Inl e
      | Inr timestamp \<Rightarrow>
          (case get_chat_file_name env (chat_question request) of
             Inl e \<Rightarrow> Inl e
           | Inr name \<Rightarrow>
               (let file_name = timestamp @ ''Chat-'' @ name;
                    chat_record_file = os_path_join (chat_chat_record_dir request) (file_name @ ''.md'')
                in Inr \<lparr>status_code = 200, media_type = ''text/plain'',
                        body = chat_generate env request file_name chat_record_file\<rparr>)))"

definition chat_with_llm_api :: "deps \<Rightarrow> chat_request \<Rightarrow> http_exception + streaming_response" where
  "chat_with_llm_api env request =
     (case chat_try env request of
        Inl e \<Rightarrow> Inl (HTTPException 500 (str_exn e))
      | Inr response \<Rightarrow> Inr response)"

subsection \<open>Calling a function by keyword\<close>

text \<open>
  \<^verbatim>\<open>/build-index\<close> calls the builders with keyword arguments only. A signature is the
  function's name and its parameters, each with its default if it has one. Python binds
  the keywords to the parameters: a keyword that names no parameter raises
  \<^verbatim>\<open>TypeError\<close> (\<^verbatim>\<open>f() got an unexpected keyword argument 'k'\<close>), and so does
  a parameter with no default that no keyword supplies. A bound call gets every
  parameter's value, in the signature's order.
\<close>

datatype pyval =
  PyNone
| PyStr string
| PyInts "int list"
| PyPaths "string list"
| PyDocs "document list"

type_synonym signature = "string \<times> (string \<times> pyval option) list"

definition quoted :: "string \<Rightarrow> string" where
  "quoted name = squote @ name @ squote"

definition quoted_names :: "string list \<Rightarrow> string" where
  "quoted_names names =
     (if length names \<le> 2 then str_join '' and '' (map quoted names)
      else str_join '', '' (map quoted (butlast names)) @ '', and '' @ quoted (last names))"

definition bind_keywords :: "signature \<Rightarrow> (string \<times> pyval) list \<Rightarrow> exn + (string \<times> pyval) list" where
  "bind_keywords sg kwargs =
     (case filter (\<lambda>k. k \<notin> set (map fst (snd sg))) (map fst kwargs) of
        k # _ \<Rightarrow> Inl (TypeError (fst sg @ ''() got an unexpected keyword argument '' @ quoted k))
      | [] \<Rightarrow>
          (case filter (\<lambda>p. snd p = None \<and> fst p \<notin> set (map fst kwargs)) (snd sg) of
             [] \<Rightarrow>
               Inr (map (\<lambda>p. (fst p,
                               case map_of kwargs (fst p) of
                                 Some v \<Rightarrow> v
                               | None \<Rightarrow> (case snd p of Some d \<Rightarrow> d | None \<Rightarrow> PyNone)))
                        (snd sg))
           | m # ms \<Rightarrow>
               Inl (TypeError (fst sg @ ''() missing '' @ str_nat (length (m # ms))
                      @ '' required positional argument'' @ (if ms = [] then [] else ''s'')
                      @ '': '' @ quoted_names (map fst (m # ms))))))"

text \<open>The \<^verbatim>\<open>def\<close> lines of \<^verbatim>\<open>src/indexing.py\<close>.\<close>

definition build_sentence_window_index_signature :: signature where
  "build_sentence_window_index_signature =
     (''build_sentence_window_index'',
      [(''document'', None), (''llm'', None),
       (''embed_model'', Some (PyStr embed_model_name)),
       (''save_dir'', Some (PyStr ''sentence_index''))])"

definition build_automerging_index_signature :: signature where
  "build_automerging_index_signature =
     (''build_automerging_index'',
      [(''documents'', None), (''llm'', None),
       (''embed_model'', Some (PyStr embed_model_name)),
       (''save_dir'', Some (PyStr ''merging_index'')),
       (''chunk_sizes'', Some PyNone)])"

text \<open>
  The builders on bound arguments. A value of a type the body cannot use raises
  \<^verbatim>\<open>TypeError\<close> (Python raises where the body first uses it).
\<close>

definition discard :: "'a action \<Rightarrow> unit action" where
  "discard m = and_then m (\<lambda>_. ok ())"

definition apply_build_sentence_window_index :: "libs \<Rightarrow> (string \<times> pyval) list \<Rightarrow> unit action" where
  "apply_build_sentence_window_index env args =
     (case (map_of args ''document'', map_of args ''llm'', map_of args ''embed_model'',
            map_of args ''save_dir'') of
        (Some (PyStr doc), Some (PyStr llm), Some (PyStr embed_model), Some (PyStr save_dir)) \<Rightarrow>
          discard (build_sentence_window_index env doc llm embed_model save_dir)
      | _ \<Rightarrow> raise (TypeError ''unsupported argument type''))"

definition apply_build_automerging_index :: "libs \<Rightarrow> (string \<times> pyval) list \<Rightarrow> unit action" where
  "apply_build_automerging_index env args =
     (case (map_of args ''documents'', map_of args ''llm'', map_of args ''embed_model'',
            map_of args ''save_dir'', map_of args ''chunk_sizes'') of
        (Some (PyDocs documents), Some (PyStr llm), Some (PyStr embed_model), Some (PyStr save_dir),
         Some PyNone) \<Rightarrow>
          discard (build_automerging_index env documents llm embed_model save_dir None)
      | (Some (PyDocs documents), Some (PyStr llm), Some (PyStr embed_model), Some (PyStr save_dir),
         Some (PyInts chunk_sizes)) \<Rightarrow>
          discard (build_automerging_index env documents llm embed_model save_dir (Some chunk_sizes))
      | _ \<Rightarrow> raise (TypeError ''unsupported argument type''))"

definition call_by_keyword ::
  "signature \<Rightarrow> ((string \<times> pyval) list \<Rightarrow> unit action) \<Rightarrow> (string \<times> pyval) list \<Rightarrow> unit action" where
  "call_by_keyword sg f kwargs = and_then (lift (bind_keywords sg kwargs)) f"

subsection \<open>\<^verbatim>\<open>/build-index\<close>\<close>

definition py_int_list :: "int list option \<Rightarrow> pyval" where
  "py_int_list v = (case v of None \<Rightarrow> PyNone | Some xs \<Rightarrow> PyInts xs)"

text \<open>The first statement of the \<^verbatim>\<open>try\<close> block: the input files of a request.\<close>

definition resolve_input_files :: "deps \<Rightarrow> build_index_request \<Rightarrow> exn + string list" where
  "resolve_input_files env request =
     (case build_input_path request of
        DirectoryPath directory \<Rightarrow>
          utils_get_all_files_from_directory env directory (build_file_extension request)
      | FileList files \<Rightarrow> Inr files)"

definition build_dispatch :: "libs \<Rightarrow> deps \<Rightarrow> build_index_request \<Rightarrow> string list \<Rightarrow> unit action" where
  "build_dispatch lib env request input_files =
     (if build_index_type request = ''basic''
      then build_basic_fixed_size_index env input_files (build_index_name request)
             (build_chunk_size request) (build_chunk_overlap request)
      else if build_index_type request = ''automerging''
      then call_by_keyword build_automerging_index_signature (apply_build_automerging_index lib)
             [(''input_files'', PyPaths input_files),
              (''index_name'', PyStr (build_index_name request)),
              (''chunk_sizes'', py_int_list (build_chunk_sizes request))]
      else if build_index_type request = ''sentence_window''
      then call_by_keyword build_sentence_window_index_signature
             (apply_build_sentence_window_index lib)
             [(''input_files'', PyPaths input_files),
              (''index_name'', PyStr (build_index_name request))]
      else raise (ValueError (''Invalid index type: '' @ build_index_type request)))"

definition build_index_try :: "libs \<Rightarrow> deps \<Rightarrow> build_index_request \<Rightarrow> build_index_response action" where
  "build_index_try lib env request =
     and_then (lift (resolve_input_files env request)) (\<lambda>input_files.
     if input_files = [] then raise (ValueError ''No valid input files found'')
     else and_then (build_dispatch lib env request input_files) (\<lambda>_.
          ok \<lparr>response_status = ''success'',
              response_message =
                ''Index '' @ squote @ build_index_name request @ squote @ '' built successfully'',
              response_num_files = length input_files\<rparr>))"

text \<open>\<^verbatim>\<open>except Exception as e: raise HTTPException(status_code=500, detail=str(e))\<close>\<close>

definition build_index_api ::
  "libs \<Rightarrow> deps \<Rightarrow> build_index_request \<Rightarrow> world
     \<Rightarrow> (http_exception + build_index_response) \<times> world" where
  "build_index_api lib env request w =
     (case build_index_try lib env request w of
        (Inl e, w') \<Rightarrow> (Inl (HTTPException 500 (str_exn e)), w')
      | (Inr response, w') \<Rightarrow> (Inr response, w'))"

subsection \<open>Reading a streamed body\<close>

text \<open>The fragments a body yields to the caller and the files it writes, in order.\<close>

fun yielded :: "stream_event list \<Rightarrow> string list" where
  "yielded [] = []"
| "yielded (Yielded c # evs) = c # yielded evs"
| "yielded (ev # evs) = yielded evs"

fun written :: "stream_event list \<Rightarrow> (string \<times> string) list" where
  "written [] = []"
| "written (FileWritten p c # evs) = (p, c) # written evs"
| "written (ev # evs) = written evs"

text \<open>One iteration of the loop: the chunk is pulled and its content yielded at once.\<close>

definition forwarded :: "string list \<Rightarrow> stream_event list" where
  "forwarded fragments = concat (map (\<lambda>c. [Pulled c, Yielded c]) fragments)"

section \<open>The directory scan with an extension filter\<close>

text \<open>
  Modelled from the spec: \<^verbatim>\<open>get_all_files_from_directory(directory, file_extension=...)\<close>
  of \<^verbatim>\<open>src.utils\<close>, the function \<^verbatim>\<open>/build-index\<close> calls on a directory path, is not
  among the sources. The spec gives the index builder "file paths or directory +
  extension filter" as inputs: the scan of \<^verbatim>\<open>src/indexing.py\<close> (the regular files directly
  in the directory), kept to the files whose name ends with the extension; no extension,
  no filter.
\<close>

definition matches_extension :: "string option \<Rightarrow> string \<Rightarrow> bool" where
  "matches_extension file_extension file =
     (case file_extension of
        None \<Rightarrow> True
      | Some ext \<Rightarrow> suffix ext (last (split_slash file)))"

definition get_all_files_from_directory_with_extension ::
  "file_system \<Rightarrow> string \<Rightarrow> string option \<Rightarrow> exn + string list" where
  "get_all_files_from_directory_with_extension fs directory_path file_extension =
     (case get_all_files_from_directory fs directory_path of
        Inl e \<Rightarrow> Inl e
      | Inr files \<Rightarrow> Inr (filter (matches_extension file_extension) files))"

section \<open>Predicates on actions and outcomes\<close>

text \<open>
  An action is quiet when every event it adds is a print: it neither opens nor closes a
  connection.
\<close>

definition quiet :: "'a action \<Rightarrow> bool" where
  "quiet m =
     (\<forall>w. \<exists>evs. events (snd (m w)) = events w @ evs \<and> filter is_connection_event evs = [])"

text \<open>
  What the two builders do to the world, whatever they return: the collections and the
  trace stay; over an existing \<^verbatim>\<open>save_dir\<close> nothing changes and an index returned is the
  one it holds; over a missing \<^verbatim>\<open>save_dir\<close> an index returned is the one built from the
  arguments, and it is what \<^verbatim>\<open>save_dir\<close> holds afterwards.
\<close>

definition persisted_only :: "string \<Rightarrow> world \<Rightarrow> (exn + stored_index) \<times> world \<Rightarrow> bool" where
  "persisted_only save_dir w out =
     (collections (snd out) = collections w \<and> events (snd out) = events w
      \<and> (if os_path_exists save_dir w
          then snd out = w
             \<and> (case fst out of
                   Inl e \<Rightarrow> True
                 | Inr idx \<Rightarrow> map_of (disk w) save_dir = Some (Some idx))
          else (case fst out of
                  Inl e \<Rightarrow> True
                | Inr idx \<Rightarrow> disk (snd out) = disk w @ [(save_dir, Some idx)])))"

section \<open>A concrete installation\<close>

text \<open>
  A small file system whose working directory is its root, libraries that never fail (a
  document's text is its path, the splitters keep each document whole), and the imported
  helpers, to run the definitions on.
\<close>

definition example_root :: fsnode where
  "example_root =
     Directory [(''docs'', Directory
       [(''a.txt'', RegularFile),
        (''sub'', Directory [(''b.txt'', RegularFile)]),
        (''c.md'', RegularFile),
        (''sock'', Special)])]"

definition example_fs :: file_system where
  "example_fs = \<lparr>root_dir = example_root, working_dir = ([], example_root)\<rparr>"

definition empty_world :: world where
  "empty_world = \<lparr>collections = [], disk = [], events = []\<rparr>"

definition example_libs :: libs where
  "example_libs =
     \<lparr>fault = (\<lambda>site. None),
      load_data = (\<lambda>files. Inr files),
      sentence_splitter = (\<lambda>chunk_size chunk_overlap documents. Inr documents),
      written_before_fault = 0,
      hierarchical_node_parser = (\<lambda>chunk_sizes documents. Inr documents),
      get_leaf_nodes = (\<lambda>nodes. nodes),
      sentence_window_node_parser = (\<lambda>documents. Inr documents)\<rparr>"

definition example_deps :: deps where
  "example_deps =
     \<lparr>utils_get_all_files_from_directory = get_all_files_from_directory_with_extension example_fs,
      build_basic_fixed_size_index =
        (\<lambda>input_files index_name chunk_size chunk_overlap.
           create_document_index example_libs input_files index_name
             (case chunk_size of None \<Rightarrow> 1024 | Some n \<Rightarrow> n)
             (case chunk_overlap of None \<Rightarrow> 200 | Some n \<Rightarrow> n)),
      get_timestamp = Inr ''20240101120000'',
      get_chat_file_name = (\<lambda>question. Inr (take 10 question)),
      print_data_sources = (\<lambda>source_nodes. Inr (str_join newline (map node_text source_nodes))),
      basic_query_from_documents =
        (\<lambda>question index_names similarity_top_k.
           if index_names = [''notes'']
           then Inr [\<lparr>node_text = ''Paris is the capital of France.'', node_index = ''notes''\<rparr>]
           else Inl (LookupError ''unknown index'')),
      model_stream = (\<lambda>prompt. ([''Par'', ''is''], None)),
      open_for_writing = (\<lambda>path. None)\<rparr>"

text \<open>The same helpers over a model whose stream breaks after its first chunk.\<close>

definition broken_stream_deps :: deps where
  "broken_stream_deps =
     example_deps\<lparr>model_stream := (\<lambda>prompt. ([''Par''], Some (RuntimeError ''connection reset'')))\<rparr>"

text \<open>The same helpers when the transcript file cannot be opened.\<close>

definition unwritable_deps :: deps where
  "unwritable_deps =
     example_deps\<lparr>open_for_writing := (\<lambda>path. Some (OSError ''Permission denied''))\<rparr>"

definition example_query :: query_request where
  "example_query =
     \<lparr>query_question = ''capital?'', query_index_names = [''notes''],
      query_similarity_top_k = 12, query_chat_record_dir = ''/records/''\<rparr>"

definition example_chat :: chat_request where
  "example_chat = \<lparr>chat_question = ''capital?'', chat_chat_record_dir = ''/records''\<rparr>"

definition example_build :: build_index_request where
  "example_build =
     \<lparr>build_input_path = DirectoryPath ''docs'', build_index_name = ''notes'',
      build_index_type = ''basic'', build_file_extension = Some ''.txt'',
      build_chunk_size = Some 1024, build_chunk_overlap = Some 200,
      build_chunk_sizes = None\<rparr>"

text \<open>
  Two worlds to run the builders on: one where \<^verbatim>\<open>idx\<close> holds a persisted index, one where
  \<^verbatim>\<open>idx\<close> exists and holds none.
\<close>

definition first_index :: stored_index where
  "first_index = \<lparr>vector_nodes = [''first''], docstore = [''first'']\<rparr>"

definition indexed_world :: world where
  "indexed_world = \<lparr>collections = [], disk = [(''idx'', Some first_index)], events = []\<rparr>"

definition plain_dir_world :: world where
  "plain_dir_world = \<lparr>collections = [], disk = [(''idx'', None)], events = []\<rparr>"


section \<open>The directory scan\<close>

lemma walk_append:
  "walk ancestors n (p @ q) =
     (case walk ancestors n p of None \<Rightarrow> None | Some (a, m) \<Rightarrow> walk a m q)"
  by (induction ancestors n p rule: walk.induct) (auto split: option.splits list.splits)

lemma walk_name:
  "c \<noteq> ''.'' \<Longrightarrow> c \<noteq> ''..'' \<Longrightarrow>
     map_option snd (walk a (Directory entries) [c]) = map_of entries c"
  by (simp split: option.splits)

lemma resolve_child:
  assumes "resolve fs p = Some (Directory entries)" and "c \<noteq> ''.''" and "c \<noteq> ''..''"
  shows "resolve fs (child p c) = map_of entries c"
proof -
  from assms(1) obtain a where
    w: "walk (fst (start_place fs p)) (snd (start_place fs p)) (parts p)
          = Some (a, Directory entries)"
    by (auto simp: resolve_def)
  have s: "start_place fs (child p c) = start_place fs p"
    by (simp add: start_place_def child_def)
  have "resolve fs (child p c)
          = map_option snd
              (walk (fst (start_place fs p)) (snd (start_place fs p)) (parts p @ [c]))"
    unfolding resolve_def s by (simp add: child_def)
  also have "\<dots> = map_option snd (walk a (Directory entries) [c])"
    unfolding walk_append w by simp
  finally have "resolve fs (child p c) = map_option snd (walk a (Directory entries) [c])" .
  with walk_name [OF assms(2,3)] show ?thesis by simp
qed

lemma listing_iff:
  "c \<in> set (listing entries) \<longleftrightarrow> c \<in> fst ` set entries \<and> c \<noteq> ''.'' \<and> c \<noteq> ''..''"
  by (auto simp: listing_def)

lemma str_join_snoc:
  "str_join sep (xs @ [c]) = (if xs = [] then c else str_join sep xs @ sep @ c)"
  by (induction sep xs rule: str_join.induct) auto

lemma str_path_child:
  "str_path (child p c) =
     (if parts p = [] then anchor p @ c else anchor p @ str_join ''/'' (parts p) @ ''/'' @ c)"
  by (simp add: str_path_def child_def str_join_snoc)

lemma str_path_child_inj: "str_path (child p c) = str_path (child p c') \<Longrightarrow> c = c'"
  by (simp add: str_path_child split: if_splits)

lemma path_is_dir_iff:
  "path_is_dir fs p \<longleftrightarrow> (\<exists>entries. resolve fs p = Some (Directory entries))"
  by (auto simp: path_is_dir_def split: option.splits fsnode.splits)

lemma scan_of_directory:
  assumes dir: "resolve fs p = Some (Directory entries)"
  shows "set (map str_path (filter (path_is_file fs) (path_glob_star fs p)))
            = {str_path (child p c) | c. c \<noteq> ''.'' \<and> c \<noteq> ''..'' \<and> path_is_file fs (child p c)}"
    and "distinct (map str_path (filter (path_is_file fs) (path_glob_star fs p)))"
proof -
  have glob: "path_glob_star fs p = map (child p) (listing entries)"
    using dir by (simp add: path_glob_star_def)
  have regular: "\<And>c. c \<noteq> ''.'' \<Longrightarrow> c \<noteq> ''..'' \<Longrightarrow>
                path_is_file fs (child p c) \<longleftrightarrow> map_of entries c = Some RegularFile"
    using resolve_child [OF dir] by (simp add: path_is_file_def)
  have listed: "c \<in> set (listing entries)"
    if "c \<noteq> ''.''" and "c \<noteq> ''..''" and "path_is_file fs (child p c)" for c
  proof -
    from that have "map_of entries c = Some RegularFile"
      by (simp add: regular)
    then have "(c, RegularFile) \<in> set entries"
      by (rule map_of_SomeD)
    then have "c \<in> fst ` set entries"
      by force
    with that show ?thesis
      by (simp add: listing_iff)
  qed
  show "set (map str_path (filter (path_is_file fs) (path_glob_star fs p)))
            = {str_path (child p c) | c. c \<noteq> ''.'' \<and> c \<noteq> ''..'' \<and> path_is_file fs (child p c)}"
  proof (intro set_eqI iffI)
    fix x
    assume "x \<in> set (map str_path (filter (path_is_file fs) (path_glob_star fs p)))"
    then obtain c where "c \<in> set (listing entries)" "path_is_file fs (child p c)"
      "x = str_path (child p c)"
      unfolding glob by auto
    then show "x \<in> {str_path (child p c) | c.
                 c \<noteq> ''.'' \<and> c \<noteq> ''..'' \<and> path_is_file fs (child p c)}"
      unfolding listing_iff by blast
  next
    fix x
    assume "x \<in> {str_path (child p c) | c.
                 c \<noteq> ''.'' \<and> c \<noteq> ''..'' \<and> path_is_file fs (child p c)}"
    then obtain c where c: "c \<noteq> ''.''" "c \<noteq> ''..''" "path_is_file fs (child p c)"
      and x: "x = str_path (child p c)"
      by blast
    from listed [OF c] c(3) x
    show "x \<in> set (map str_path (filter (path_is_file fs) (path_glob_star fs p)))"
      unfolding glob by simp
  qed
  have d: "distinct (listing entries)"
    by (simp add: listing_def)
  have inj: "inj_on (\<lambda>c. str_path (child p c)) A" for A
    by (rule inj_onI) (rule str_path_child_inj)
  have eq: "map str_path (filter (path_is_file fs) (map (child p) (listing entries)))
              = map (\<lambda>c. str_path (child p c))
                  (filter (\<lambda>c. path_is_file fs (child p c)) (listing entries))"
    by (simp add: filter_map comp_def)
  show "distinct (map str_path (filter (path_is_file fs) (path_glob_star fs p)))"
    unfolding glob eq by (simp add: distinct_map d inj)
qed

lemma scan_returns:
  assumes "path_is_dir fs (Path s)"
  shows "\<exists>files. get_all_files_from_directory fs s = Inr files
           \<and> set files = {str_path (child (Path s) c) | c.
                 c \<noteq> ''.'' \<and> c \<noteq> ''..'' \<and> path_is_file fs (child (Path s) c)}
           \<and> distinct files"
proof -
  from assms obtain entries where dir: "resolve fs (Path s) = Some (Directory entries)"
    by (auto simp: path_is_dir_iff)
  then have "get_all_files_from_directory fs s
               = Inr (map str_path (filter (path_is_file fs) (path_glob_star fs (Path s))))"
    by (simp add: get_all_files_from_directory_def path_exists_def path_is_dir_def)
  with scan_of_directory [OF dir] show ?thesis by simp
qed

text \<open>
  C10. \<^verbatim>\<open>get_all_files_from_directory(p)\<close> raises exactly when \<open>p\<close> does not exist or is
  not a directory, as the operating system resolves it (\<^verbatim>\<open>..\<close> included), and what it
  raises is the \<^verbatim>\<open>ValueError\<close> that carries \<open>p\<close> as given. Otherwise it returns exactly
  the regular files directly in \<open>p\<close>, each once, as \<open>p\<close> with one more component: a
  subdirectory and whatever lies inside it are left out, and every regular file of \<open>p\<close> is
  returned whatever its name, so no extension filter is applied.
\<close>

theorem get_all_files_from_directory_result:
  "((\<exists>m. get_all_files_from_directory fs s = Inl (ValueError m)) \<longleftrightarrow>
      (\<not> path_exists fs (Path s) \<or> \<not> path_is_dir fs (Path s)))
   \<and> (\<forall>e. get_all_files_from_directory fs s = Inl e \<longrightarrow>
          e = ValueError (''Invalid directory path: '' @ s))
   \<and> (path_exists fs (Path s) \<and> path_is_dir fs (Path s) \<longrightarrow>
        (\<exists>files. get_all_files_from_directory fs s = Inr files
           \<and> set files = {str_path (child (Path s) c) | c.
                 c \<noteq> ''.'' \<and> c \<noteq> ''..'' \<and> path_is_file fs (child (Path s) c)}
           \<and> distinct files))"
proof (cases "path_is_dir fs (Path s)")
  case True
  then have "path_exists fs (Path s)"
    by (auto simp: path_is_dir_iff path_exists_def)
  with True scan_returns [OF True] show ?thesis by auto
next
  case False
  then show ?thesis by (simp add: get_all_files_from_directory_def)
qed

lemmas run_scan =
  get_all_files_from_directory_def path_exists_def path_is_dir_def path_glob_star_def
  path_is_file_def resolve_def start_place_def Path_def str_path_def child_def listing_def
  example_fs_def example_root_def Let_def

lemma example_scan_docs:
  "get_all_files_from_directory example_fs ''docs'' = Inr [''docs/a.txt'', ''docs/c.md'']"
  by (simp add: run_scan)

lemma example_scan_dotdot:
  "get_all_files_from_directory example_fs ''docs/sub/..''
     = Inr [''docs/sub/../a.txt'', ''docs/sub/../c.md'']"
  by (simp add: run_scan)

theorem get_all_files_from_directory_result_witness:
  "get_all_files_from_directory example_fs ''docs'' = Inr [''docs/a.txt'', ''docs/c.md'']
   \<and> {str_path (child (Path ''docs'') c) | c.
         c \<noteq> ''.'' \<and> c \<noteq> ''..'' \<and> path_is_file example_fs (child (Path ''docs'') c)}
        = {''docs/a.txt'', ''docs/c.md''}
   \<and> get_all_files_from_directory example_fs ''docs/sub/..''
        = Inr [''docs/sub/../a.txt'', ''docs/sub/../c.md'']
   \<and> path_is_dir example_fs (Path ''docs/sub/..'')
   \<and> get_all_files_from_directory example_fs ''docs/sub/b.txt''
        = Inl (ValueError ''Invalid directory path: docs/sub/b.txt'')
   \<and> get_all_files_from_directory example_fs ''nope/''
        = Inl (ValueError ''Invalid directory path: nope/'')"
proof -
  have d: "path_exists example_fs (Path ''docs'') \<and> path_is_dir example_fs (Path ''docs'')"
    by (simp add: run_scan)
  have u: "path_is_dir example_fs (Path ''docs/sub/..'')"
    by (simp add: run_scan)
  have n: "\<not> path_is_dir example_fs (Path ''docs/sub/b.txt'')"
    by (simp add: run_scan)
  have m: "\<not> path_exists example_fs (Path ''nope/'')"
    by (simp add: run_scan)
  note t = get_all_files_from_directory_result
  from t [of example_fs "''docs''", THEN conjunct2, THEN conjunct2, THEN mp, OF d]
  obtain files where f: "get_all_files_from_directory example_fs ''docs'' = Inr files"
    and st: "set files = {str_path (child (Path ''docs'') c) | c.
         c \<noteq> ''.'' \<and> c \<noteq> ''..'' \<and> path_is_file example_fs (child (Path ''docs'') c)}"
    by (elim exE conjE)
  have fe: "files = [''docs/a.txt'', ''docs/c.md'']"
    using f unfolding example_scan_docs by simp
  have 1: "{str_path (child (Path ''docs'') c) | c.
         c \<noteq> ''.'' \<and> c \<noteq> ''..'' \<and> path_is_file example_fs (child (Path ''docs'') c)}
        = {''docs/a.txt'', ''docs/c.md''}"
    unfolding st [symmetric] fe by simp
  from t [of example_fs "''docs/sub/b.txt''", THEN conjunct1, THEN iffD2, OF disjI2 [OF n]]
  obtain msg where e: "get_all_files_from_directory example_fs ''docs/sub/b.txt''
      = Inl (ValueError msg)" ..
  from t [of example_fs "''docs/sub/b.txt''", THEN conjunct2, THEN conjunct1] e
  have 2: "get_all_files_from_directory example_fs ''docs/sub/b.txt''
        = Inl (ValueError ''Invalid directory path: docs/sub/b.txt'')"
    by simp
  from t [of example_fs "''nope/''", THEN conjunct1, THEN iffD2, OF disjI1 [OF m]]
  obtain msg' where e': "get_all_files_from_directory example_fs ''nope/'' = Inl (ValueError msg')" ..
  from t [of example_fs "''nope/''", THEN conjunct2, THEN conjunct1] e'
  have 3: "get_all_files_from_directory example_fs ''nope/''
        = Inl (ValueError ''Invalid directory path: nope/'')"
    by simp
  show ?thesis
    by (intro conjI example_scan_docs 1 example_scan_dotdot u 2 3)
qed

section \<open>Index construction\<close>

subsection \<open>The connection\<close>

lemma quietI:
  "(\<And>w. \<exists>evs. events (snd (m w)) = events w @ evs \<and> filter is_connection_event evs = [])
     \<Longrightarrow> quiet m"
  by (simp add: quiet_def)

lemma quiet_ok: "quiet (ok a)"
  by (simp add: quiet_def ok_def)

lemma quiet_lift: "quiet (lift r)"
  by (simp add: quiet_def lift_def)

lemma quiet_lib_call: "quiet (lib_call env site)"
  by (simp add: quiet_def lib_call_def split: option.splits)

lemma quiet_print: "quiet (print s)"
  by (simp add: quiet_def print_def emit_def)

lemma quiet_if: "quiet m1 \<Longrightarrow> quiet m2 \<Longrightarrow> quiet (if b then m1 else m2)"
  by simp

lemma quiet_and_then:
  assumes "quiet m" and "\<And>a. quiet (f a)"
  shows "quiet (and_then m f)"
proof (rule quietI)
  fix w
  obtain r w1 where m: "m w = (r, w1)" by (cases "m w")
  from assms(1) m obtain evs1 where
    e1: "events w1 = events w @ evs1" "filter is_connection_event evs1 = []"
    unfolding quiet_def by (metis snd_conv)
  show "\<exists>evs. events (snd (and_then m f w)) = events w @ evs
          \<and> filter is_connection_event evs = []"
  proof (cases r)
    case (Inl e)
    then show ?thesis using m e1 by (simp add: and_then_def)
  next
    case (Inr a)
    from assms(2) [of a] obtain evs2 where
      e2: "events (snd (f a w1)) = events w1 @ evs2" "filter is_connection_event evs2 = []"
      unfolding quiet_def by blast
    have "events (snd (and_then m f w)) = events w @ (evs1 @ evs2)"
      using m Inr e1 e2 by (simp add: and_then_def)
    moreover have "filter is_connection_event (evs1 @ evs2) = []"
      using e1 e2 by simp
    ultimately show ?thesis by blast
  qed
qed

lemma quiet_after_lib_call:
  "(\<And>a w. events (snd (g a w)) = events w) \<Longrightarrow> quiet (and_then (lib_call env site) g)"
  by (rule quiet_and_then [OF quiet_lib_call]) (simp add: quiet_def)

lemma quiet_collections_exists: "quiet (collections_exists env n)"
  unfolding collections_exists_def by (rule quiet_after_lib_call) simp

lemma quiet_collections_delete: "quiet (collections_delete env n)"
  unfolding collections_delete_def by (rule quiet_after_lib_call) simp

lemma quiet_collections_create: "quiet (collections_create env n)"
  unfolding collections_create_def by (rule quiet_after_lib_call) simp

lemma quiet_new_weaviate_vector_store: "quiet (new_weaviate_vector_store env n)"
  unfolding new_weaviate_vector_store_def by (rule quiet_after_lib_call) simp

lemma quiet_new_vector_store_index: "quiet (new_vector_store_index env n nodes)"
  by (simp add: quiet_def new_vector_store_index_def add_nodes_def split: option.splits)

lemma quiet_index_documents: "quiet (index_documents env files n cs co)"
  unfolding index_documents_def
  by (intro quiet_and_then quiet_if quiet_collections_exists quiet_collections_delete
      quiet_collections_create quiet_new_weaviate_vector_store quiet_new_vector_store_index
      quiet_print quiet_lift quiet_lib_call quiet_ok)

text \<open>
  C7. Whatever the libraries do, \<^verbatim>\<open>create_document_index\<close> leaves the connection as it
  found it: the events it adds open a connection and then close it once, when
  \<^verbatim>\<open>connect_to_local\<close> returned, and neither open nor close one when it raised. This
  holds whether the function returns or raises, and wherever it raises.
\<close>

theorem create_document_index_closes_client:
  "\<exists>evs. events (snd (create_document_index env files n cs co w)) = events w @ evs
      \<and> filter is_connection_event evs =
          (if fault env ConnectToLocal = None then [Connected, Closed] else [])"
proof (cases "fault env ConnectToLocal")
  case (Some e)
  then show ?thesis
    by (simp add: create_document_index_def try_block_def connect_to_local_def emit_def)
next
  case None
  obtain r w2 where body: "index_documents env files n cs co (emit Connected w) = (r, w2)"
    by (cases "index_documents env files n cs co (emit Connected w)")
  from quiet_index_documents [of env files n cs co] body obtain evs where
    evs: "events w2 = events (emit Connected w) @ evs" "filter is_connection_event evs = []"
    unfolding quiet_def by (metis snd_conv)
  show ?thesis
    using None body evs
    by (cases r) (simp_all add: create_document_index_def try_block_def connect_to_local_def
        emit_def client_close_def)
qed

theorem create_document_index_closes_client_witness:
  "fst (create_document_index (example_libs\<lparr>load_data := (\<lambda>files. Inl (OSError ''unreadable''))\<rparr>)
          [''docs/a.txt''] ''notes'' 1024 200 empty_world) = Inl (OSError ''unreadable'')
   \<and> filter is_connection_event
        (events (snd (create_document_index
           (example_libs\<lparr>load_data := (\<lambda>files. Inl (OSError ''unreadable''))\<rparr>)
           [''docs/a.txt''] ''notes'' 1024 200 empty_world))) = [Connected, Closed]"
proof -
  let ?env = "example_libs\<lparr>load_data := (\<lambda>files. Inl (OSError ''unreadable''))\<rparr>"
  have r: "fst (create_document_index ?env [''docs/a.txt''] ''notes'' 1024 200 empty_world)
             = Inl (OSError ''unreadable'')"
    by (simp add: create_document_index_def try_block_def connect_to_local_def
        index_documents_def and_then_def collections_exists_def collections_create_def
        lib_call_def ok_def lift_def print_def emit_def example_libs_def empty_world_def Let_def)
  have f: "fault ?env ConnectToLocal = None"
    by (simp add: example_libs_def)
  from create_document_index_closes_client
         [of ?env "[''docs/a.txt'']" "''notes''" 1024 200 empty_world] f
  have "filter is_connection_event
          (events (snd (create_document_index ?env [''docs/a.txt''] ''notes'' 1024 200
             empty_world))) = [Connected, Closed]"
    by (auto simp: empty_world_def)
  with r show ?thesis by simp
qed

subsection \<open>What a successful build leaves in the store\<close>

lemma and_then_Inr:
  "and_then m f w = (Inr b, w') \<longleftrightarrow> (\<exists>a w1. m w = (Inr a, w1) \<and> f a w1 = (Inr b, w'))"
  by (auto simp: and_then_def split: prod.splits sum.splits)

lemma lib_call_Inr: "lib_call env site w = (Inr u, w') \<Longrightarrow> w' = w"
  by (auto simp: lib_call_def split: option.splits)

lemma print_collections: "print s w = (r, w') \<Longrightarrow> collections w' = collections w"
  by (auto simp: print_def emit_def)

lemma lift_Inr: "lift r w = (Inr a, w') \<Longrightarrow> r = Inr a \<and> w' = w"
  by (simp add: lift_def)

lemma collections_exists_Inr:
  "collections_exists env n w = (Inr b, w') \<Longrightarrow>
     w' = w \<and> b = (n \<in> fst ` set (collections w))"
  by (auto simp: collections_exists_def and_then_def lib_call_def split: option.splits)

lemma collections_delete_Inr:
  "collections_delete env n w = (Inr u, w') \<Longrightarrow>
     collections w' = filter (\<lambda>c. fst c \<noteq> n) (collections w)"
  by (auto simp: collections_delete_def and_then_def lib_call_def split: option.splits)

lemma collections_create_Inr:
  "collections_create env n w = (Inr u, w') \<Longrightarrow>
     n \<notin> fst ` set (collections w) \<and> collections w' = collections w @ [(n, [])]"
  by (auto simp: collections_create_def and_then_def lib_call_def
      split: option.splits if_splits)

lemma new_weaviate_vector_store_Inr:
  "new_weaviate_vector_store env n w = (Inr u, w') \<Longrightarrow> n \<in> fst ` set (collections w) \<Longrightarrow>
     collections w' = collections w"
  by (auto simp: new_weaviate_vector_store_def and_then_def lib_call_def
      split: option.splits if_splits)

lemma new_vector_store_index_Inr:
  "new_vector_store_index env n nodes w = (Inr u, w') \<Longrightarrow>
     collections w' =
       map (\<lambda>c. if fst c = n then (fst c, snd c @ nodes) else c) (collections w)"
  by (auto simp: new_vector_store_index_def add_nodes_def split: option.splits)

lemma filter_absent: "n \<notin> fst ` set cs \<Longrightarrow> filter (\<lambda>c. fst c \<noteq> n) cs = cs"
  by (rule filter_True) auto

lemma named_of_others: "filter (\<lambda>c. fst c = n) (filter (\<lambda>c. fst c \<noteq> n) cs) = []"
  by (induction cs) auto

lemma add_nodes_to_others:
  "map (\<lambda>c. if fst c = n then (fst c, snd c @ nodes) else c) (filter (\<lambda>c. fst c \<noteq> n) cs)
     = filter (\<lambda>c. fst c \<noteq> n) cs"
  by (induction cs) auto

lemma drop_existing_Inr:
  assumes "(if existing
            then and_then (collections_delete env n) (\<lambda>_. print msg)
            else ok ()) w = (Inr u, w')"
    and "existing = (n \<in> fst ` set (collections w))"
  shows "collections w' = filter (\<lambda>c. fst c \<noteq> n) (collections w)"
proof (cases existing)
  case True
  with assms(1) obtain w1 u1 where
    "collections_delete env n w = (Inr u1, w1)" "print msg w1 = (Inr u, w')"
    by (auto simp: and_then_Inr)
  then show ?thesis
    by (simp add: collections_delete_Inr print_collections)
next
  case False
  with assms show ?thesis by (simp add: ok_def filter_absent)
qed

lemma index_documents_success:
  assumes "index_documents env files n cs co w = (Inr u, w')"
  shows "\<exists>chunks. produced_chunks env files cs co = Inr chunks
           \<and> collections w' = filter (\<lambda>c. fst c \<noteq> n) (collections w) @ [(n, chunks)]"
proof -
  from assms [unfolded index_documents_def and_then_Inr]
  obtain existing wa ub wb uc wc ud wd docs we chunks wf ug wg uh wh ui wi where
      ex: "collections_exists env n w = (Inr existing, wa)"
    and dr: "(if existing
            then and_then (collections_delete env n)
              (\<lambda>_. print (''Existing collection '' @ n @ '' has been deleted.''))
            else ok ()) wa = (Inr ub, wb)"
    and cr: "collections_create env n wb = (Inr uc, wc)"
    and p1: "print ''documents collection has been created.'' wc = (Inr ud, wd)"
    and ld: "lift (load_data env files) wd = (Inr docs, we)"
    and sp: "lift (sentence_splitter env cs co docs) we = (Inr chunks, wf)"
    and vs: "new_weaviate_vector_store env n wf = (Inr ug, wg)"
    and sc: "lib_call env StorageContextFromDefaults wg = (Inr uh, wh)"
    and ix: "new_vector_store_index env n chunks wh = (Inr ui, wi)"
    and p2: "print ''All vector data has been written to Weaviate.'' wi = (Inr u, w')"
    by blast
  from ex have wa: "wa = w" and existing: "existing = (n \<in> fst ` set (collections w))"
    by (simp_all add: collections_exists_Inr)
  have cb: "collections wb = filter (\<lambda>c. fst c \<noteq> n) (collections w)"
    using dr existing unfolding wa by (rule drop_existing_Inr)
  have cc: "collections wc = filter (\<lambda>c. fst c \<noteq> n) (collections w) @ [(n, [])]"
    using collections_create_Inr [OF cr] cb by simp
  have cf: "collections wf = collections wc"
    using print_collections [OF p1] lift_Inr [OF ld] lift_Inr [OF sp] by simp
  have cg: "collections wg = collections wf"
    using vs by (rule new_weaviate_vector_store_Inr) (simp add: cf cc)
  have ch: "collections wh = collections wg"
    using lib_call_Inr [OF sc] by simp
  have "collections w' = filter (\<lambda>c. fst c \<noteq> n) (collections w) @ [(n, chunks)]"
    using print_collections [OF p2] new_vector_store_index_Inr [OF ix]
    by (simp add: ch cg cf cc add_nodes_to_others)
  moreover have "produced_chunks env files cs co = Inr chunks"
    using lift_Inr [OF ld] lift_Inr [OF sp] by (simp add: produced_chunks_def)
  ultimately show ?thesis by blast
qed

lemma create_document_index_Inr:
  assumes "create_document_index env files n cs co w = (Inr u, w')"
  shows "\<exists>u1 w1. index_documents env files n cs co (emit Connected w) = (Inr u1, w1)
           \<and> collections w' = collections w1"
proof (cases "fault env ConnectToLocal")
  case (Some e)
  with assms show ?thesis
    by (simp add: create_document_index_def try_block_def connect_to_local_def)
next
  case None
  obtain r w1 where b: "index_documents env files n cs co (emit Connected w) = (r, w1)"
    by (cases "index_documents env files n cs co (emit Connected w)")
  with None assms show ?thesis
    by (cases r) (auto simp: create_document_index_def try_block_def connect_to_local_def
        client_close_def emit_def)
qed

lemma create_document_index_success:
  assumes "create_document_index env files n cs co w = (Inr u, w')"
  shows "\<exists>chunks. produced_chunks env files cs co = Inr chunks
           \<and> named n w' = [(n, chunks)] \<and> others n w' = others n w"
proof -
  from create_document_index_Inr [OF assms] obtain u1 w1 where
    "index_documents env files n cs co (emit Connected w) = (Inr u1, w1)"
    and "collections w' = collections w1"
    by blast
  with index_documents_success [of env files n cs co "emit Connected w" u1 w1]
  show ?thesis
    by (auto simp: named_def others_def named_of_others emit_def)
qed

subsection \<open>The builders that persist to \<^verbatim>\<open>save_dir\<close>\<close>

lemma filter_other_paths: "p \<notin> fst ` set ds \<Longrightarrow> filter (\<lambda>d. fst d \<noteq> p) ds = ds"
  by (rule filter_True) auto

lemma persist_result:
  "persist env p idx w =
     (case fault env Persist of
        Some e \<Rightarrow> (Inl e, w)
      | None \<Rightarrow> (Inr (), w\<lparr>disk := filter (\<lambda>d. fst d \<noteq> p) (disk w) @ [(p, Some idx)]\<rparr>))"
  by (simp add: persist_def and_then_def lib_call_def split: option.splits)

lemma load_index_from_storage_result:
  "load_index_from_storage env p w = (r, w') \<Longrightarrow>
     w' = w \<and> (\<forall>idx. r = Inr idx \<longrightarrow> map_of (disk w) p = Some (Some idx))"
  by (auto simp: load_index_from_storage_def and_then_def lib_call_def split: option.splits)

lemma build_and_persist_result:
  assumes "and_then (lib_call env NewVectorStoreIndex)
             (\<lambda>_. and_then (persist env p idx) (\<lambda>_. ok idx)) w = (r, w')"
    and "\<not> os_path_exists p w"
  shows "collections w' = collections w \<and> events w' = events w
       \<and> (\<forall>idx'. r = Inr idx' \<longrightarrow> idx' = idx \<and> disk w' = disk w @ [(p, Some idx)])"
  using assms
  by (auto simp: and_then_def lib_call_def persist_result ok_def os_path_exists_def
      filter_other_paths split: option.splits)

lemma persisted_only_load:
  "os_path_exists p w \<Longrightarrow> persisted_only p w (load_index_from_storage env p w)"
  using load_index_from_storage_result [of env p w]
  by (cases "load_index_from_storage env p w")
    (auto simp: persisted_only_def split: sum.splits)

lemma persisted_only_build:
  "\<not> os_path_exists p w \<Longrightarrow>
     persisted_only p w
       (and_then (lib_call env NewVectorStoreIndex)
          (\<lambda>_. and_then (persist env p idx) (\<lambda>_. ok idx)) w)"
  using build_and_persist_result [of env p idx w]
  by (cases "and_then (lib_call env NewVectorStoreIndex)
          (\<lambda>_. and_then (persist env p idx) (\<lambda>_. ok idx)) w")
    (auto simp: persisted_only_def split: sum.splits)

lemma persisted_only_raise: "persisted_only p w (Inl e, w)"
  by (simp add: persisted_only_def)

lemma build_automerging_index_persisted_only:
  "persisted_only save_dir w
     (build_automerging_index env documents llm embed_model save_dir chunk_sizes w)"
proof -
  define sizes where "sizes = (case chunk_sizes of
      None \<Rightarrow> [2048, 512, 128] | Some [] \<Rightarrow> [2048, 512, 128] | Some (c # cs) \<Rightarrow> c # cs)"
  show ?thesis
  proof (cases "hierarchical_node_parser env sizes documents")
    case (Inl e)
    then show ?thesis
      by (simp add: build_automerging_index_def sizes_def [symmetric] and_then_def lift_def
          persisted_only_raise)
  next
    case (Inr nodes)
    show ?thesis
    proof (cases "fault env ServiceContextFromDefaults = None
        \<and> fault env StorageContextFromDefaults = None
        \<and> fault env DocstoreAddDocuments = None")
      case False
      with Inr show ?thesis
        by (auto simp: build_automerging_index_def sizes_def [symmetric] and_then_def lift_def
            lib_call_def persisted_only_raise split: option.splits)
    next
      case True
      with Inr have "build_automerging_index env documents llm embed_model save_dir chunk_sizes w
        = (if \<not> os_path_exists save_dir w
           then and_then (lib_call env NewVectorStoreIndex)
                  (\<lambda>_. and_then (persist env save_dir
                         \<lparr>vector_nodes = get_leaf_nodes env nodes, docstore = nodes\<rparr>)
                       (\<lambda>_. ok \<lparr>vector_nodes = get_leaf_nodes env nodes, docstore = nodes\<rparr>)) w
           else load_index_from_storage env save_dir w)"
        by (simp add: build_automerging_index_def sizes_def [symmetric] and_then_def lift_def
            lib_call_def)
      then show ?thesis
        by (simp add: persisted_only_load persisted_only_build)
    qed
  qed
qed

lemma build_sentence_window_index_persisted_only:
  "persisted_only save_dir w
     (build_sentence_window_index env doc llm embed_model save_dir w)"
proof (cases "fault env ServiceContextFromDefaults")
  case (Some e)
  then show ?thesis
    by (simp add: build_sentence_window_index_def and_then_def lib_call_def
        persisted_only_raise)
next
  case None
  show ?thesis
  proof (cases "os_path_exists save_dir w")
    case True
    with None show ?thesis
      by (simp add: build_sentence_window_index_def and_then_def lib_call_def
          persisted_only_load)
  next
    case False
    show ?thesis
    proof (cases "sentence_window_node_parser env [doc]")
      case (Inl e)
      with None False show ?thesis
        by (simp add: build_sentence_window_index_def and_then_def lib_call_def lift_def
            persisted_only_raise)
    next
      case (Inr nodes)
      with None False
      have "build_sentence_window_index env doc llm embed_model save_dir w
        = and_then (lib_call env NewVectorStoreIndex)
            (\<lambda>_. and_then (persist env save_dir \<lparr>vector_nodes = nodes, docstore = nodes\<rparr>)
                 (\<lambda>_. ok \<lparr>vector_nodes = nodes, docstore = nodes\<rparr>)) w"
        by (simp add: build_sentence_window_index_def and_then_def lib_call_def lift_def)
      with False show ?thesis
        by (simp add: persisted_only_build)
    qed
  qed
qed

text \<open>
  C1, as amended. For the fixed-size strategy (\<^verbatim>\<open>create_document_index\<close>): a successful
  build for the name \<open>n\<close> leaves exactly one collection named \<open>n\<close>, holding exactly the
  chunks that build produced, and leaves every other collection as it was. So of two
  successful builds for \<open>n\<close>, one after the other, only the second one's chunks remain.
  The sentence-window and auto-merging builders, for every input and whether they return
  or raise, leave the collections as they were: they persist to \<^verbatim>\<open>save_dir\<close>. When
  \<^verbatim>\<open>save_dir\<close> exists they change nothing, and the index they return, if any, is the one
  \<^verbatim>\<open>save_dir\<close> holds; when it does not exist, the index they return is written to it.
\<close>

theorem rebuild_replaces_collection:
  "(create_document_index env1 files1 n cs1 co1 w0 = (Inr u1, w1)
      \<and> create_document_index env2 files2 n cs2 co2 w1 = (Inr u2, w2) \<longrightarrow>
      (\<exists>chunks1 chunks2.
           produced_chunks env1 files1 cs1 co1 = Inr chunks1
         \<and> produced_chunks env2 files2 cs2 co2 = Inr chunks2
         \<and> named n w1 = [(n, chunks1)]
         \<and> named n w2 = [(n, chunks2)]
         \<and> others n w2 = others n w0))
   \<and> (collections (snd (build_automerging_index env documents llm embed_model save_dir chunk_sizes w)) = collections w
        \<and> events (snd (build_automerging_index env documents llm embed_model save_dir chunk_sizes w)) = events w
        \<and> (if os_path_exists save_dir w
            then snd (build_automerging_index env documents llm embed_model save_dir chunk_sizes w) = w
               \<and> (case fst (build_automerging_index env documents llm embed_model save_dir chunk_sizes w) of
                     Inl e \<Rightarrow> True
                   | Inr idx \<Rightarrow> map_of (disk w) save_dir = Some (Some idx))
            else (case fst (build_automerging_index env documents llm embed_model save_dir chunk_sizes w) of
                    Inl e \<Rightarrow> True
                  | Inr idx \<Rightarrow>
                      disk (snd (build_automerging_index env documents llm embed_model save_dir chunk_sizes w)) = disk w @ [(save_dir, Some idx)])))
   \<and> (collections (snd (build_sentence_window_index env doc llm embed_model save_dir w)) = collections w
        \<and> events (snd (build_sentence_window_index env doc llm embed_model save_dir w)) = events w
        \<and> (if os_path_exists save_dir w
            then snd (build_sentence_window_index env doc llm embed_model save_dir w) = w
               \<and> (case fst (build_sentence_window_index env doc llm embed_model save_dir w) of
                     Inl e \<Rightarrow> True
                   | Inr idx \<Rightarrow> map_of (disk w) save_dir = Some (Some idx))
            else (case fst (build_sentence_window_index env doc llm embed_model save_dir w) of
                    Inl e \<Rightarrow> True
                  | Inr idx \<Rightarrow>
                      disk (snd (build_sentence_window_index env doc llm embed_model save_dir w)) = disk w @ [(save_dir, Some idx)])))"
proof (rule conjI [OF impI conjI])
  assume b: "create_document_index env1 files1 n cs1 co1 w0 = (Inr u1, w1)
      \<and> create_document_index env2 files2 n cs2 co2 w1 = (Inr u2, w2)"
  from create_document_index_success [OF b [THEN conjunct1]]
       create_document_index_success [OF b [THEN conjunct2]]
  show "\<exists>chunks1 chunks2.
           produced_chunks env1 files1 cs1 co1 = Inr chunks1
         \<and> produced_chunks env2 files2 cs2 co2 = Inr chunks2
         \<and> named n w1 = [(n, chunks1)]
         \<and> named n w2 = [(n, chunks2)]
         \<and> others n w2 = others n w0"
    by auto
next
  show "collections (snd (build_automerging_index env documents llm embed_model save_dir chunk_sizes w)) = collections w
        \<and> events (snd (build_automerging_index env documents llm embed_model save_dir chunk_sizes w)) = events w
        \<and> (if os_path_exists save_dir w
            then snd (build_automerging_index env documents llm embed_model save_dir chunk_sizes w) = w
               \<and> (case fst (build_automerging_index env documents llm embed_model save_dir chunk_sizes w) of
                     Inl e \<Rightarrow> True
                   | Inr idx \<Rightarrow> map_of (disk w) save_dir = Some (Some idx))
            else (case fst (build_automerging_index env documents llm embed_model save_dir chunk_sizes w) of
                    Inl e \<Rightarrow> True
                  | Inr idx \<Rightarrow>
                      disk (snd (build_automerging_index env documents llm embed_model save_dir chunk_sizes w)) = disk w @ [(save_dir, Some idx)]))"
    using build_automerging_index_persisted_only
            [of save_dir w env documents llm embed_model chunk_sizes]
    unfolding persisted_only_def .
next
  show "collections (snd (build_sentence_window_index env doc llm embed_model save_dir w)) = collections w
        \<and> events (snd (build_sentence_window_index env doc llm embed_model save_dir w)) = events w
        \<and> (if os_path_exists save_dir w
            then snd (build_sentence_window_index env doc llm embed_model save_dir w) = w
               \<and> (case fst (build_sentence_window_index env doc llm embed_model save_dir w) of
                     Inl e \<Rightarrow> True
                   | Inr idx \<Rightarrow> map_of (disk w) save_dir = Some (Some idx))
            else (case fst (build_sentence_window_index env doc llm embed_model save_dir w) of
                    Inl e \<Rightarrow> True
                  | Inr idx \<Rightarrow>
                      disk (snd (build_sentence_window_index env doc llm embed_model save_dir w)) = disk w @ [(save_dir, Some idx)]))"
    using build_sentence_window_index_persisted_only
            [of save_dir w env doc llm embed_model]
    unfolding persisted_only_def .
qed

lemmas run_build =
  create_document_index_def try_block_def connect_to_local_def client_close_def
  index_documents_def and_then_def collections_exists_def collections_delete_def
  collections_create_def new_weaviate_vector_store_def new_vector_store_index_def add_nodes_def
  lib_call_def ok_def lift_def print_def emit_def example_libs_def empty_world_def Let_def

lemmas run_persist =
  build_automerging_index_def build_sentence_window_index_def and_then_def lift_def
  lib_call_def ok_def os_path_exists_def persist_def load_index_from_storage_def
  example_libs_def empty_world_def

theorem rebuild_replaces_collection_witness:
  "named ''notes''
     (snd (create_document_index example_libs [''docs/c.md''] ''notes'' 1024 200
        (snd (create_document_index example_libs [''docs/a.txt''] ''notes'' 1024 200
           empty_world))))
     = [(''notes'', [''docs/c.md''])]
   \<and> os_path_exists ''idx'' indexed_world
   \<and> fst (build_automerging_index example_libs [''second''] ''llm'' embed_model_name ''idx''
             None indexed_world) = Inr first_index
   \<and> snd (build_automerging_index example_libs [''second''] ''llm'' embed_model_name ''idx''
             None indexed_world) = indexed_world
   \<and> fst (build_sentence_window_index example_libs ''second'' ''llm'' embed_model_name ''idx''
             indexed_world) = Inr first_index
   \<and> snd (build_sentence_window_index example_libs ''second'' ''llm'' embed_model_name ''idx''
             indexed_world) = indexed_world
   \<and> \<not> os_path_exists ''idx'' empty_world
   \<and> disk (snd (build_automerging_index example_libs [''first''] ''llm'' embed_model_name
                   ''idx'' None empty_world)) = [(''idx'', Some first_index)]
   \<and> disk (snd (build_sentence_window_index example_libs ''first'' ''llm'' embed_model_name
                   ''idx'' empty_world)) = [(''idx'', Some first_index)]
   \<and> os_path_exists ''idx'' plain_dir_world
   \<and> fst (build_automerging_index example_libs [''second''] ''llm'' embed_model_name ''idx''
             None plain_dir_world) = Inl (FileNotFoundError ''No such file or directory: idx'')
   \<and> snd (build_automerging_index example_libs [''second''] ''llm'' embed_model_name ''idx''
             None plain_dir_world) = plain_dir_world"
proof -
  let ?w1 = "snd (create_document_index example_libs [''docs/a.txt''] ''notes'' 1024 200
                empty_world)"
  let ?w2 = "snd (create_document_index example_libs [''docs/c.md''] ''notes'' 1024 200 ?w1)"
  note t = rebuild_replaces_collection
  have "fst (create_document_index example_libs [''docs/a.txt''] ''notes'' 1024 200
               empty_world) = Inr ()"
    by (simp add: run_build)
  then have b1: "create_document_index example_libs [''docs/a.txt''] ''notes'' 1024 200
                   empty_world = (Inr (), ?w1)"
    by (simp add: prod_eq_iff)
  have "fst (create_document_index example_libs [''docs/c.md''] ''notes'' 1024 200 ?w1)
          = Inr ()"
    by (simp add: run_build)
  then have b2: "create_document_index example_libs [''docs/c.md''] ''notes'' 1024 200 ?w1
                   = (Inr (), ?w2)"
    by (simp add: prod_eq_iff)
  have p: "produced_chunks example_libs [''docs/c.md''] 1024 200 = Inr [''docs/c.md'']"
    by (simp add: produced_chunks_def example_libs_def)
  from t [THEN conjunct1, THEN mp, OF conjI [OF b1 b2]] p
  have 1: "named ''notes'' ?w2 = [(''notes'', [''docs/c.md''])]"
    by auto
  have ex: "os_path_exists ''idx'' indexed_world"
    by (simp add: os_path_exists_def indexed_world_def)
  have nex: "\<not> os_path_exists ''idx'' empty_world"
    by (simp add: os_path_exists_def empty_world_def)
  have pex: "os_path_exists ''idx'' plain_dir_world"
    by (simp add: os_path_exists_def plain_dir_world_def)
  have a_ok: "fst (build_automerging_index example_libs [''second''] ''llm'' embed_model_name
                ''idx'' None indexed_world) = Inr first_index"
    by (simp add: run_persist indexed_world_def)
  have s_ok: "fst (build_sentence_window_index example_libs ''second'' ''llm'' embed_model_name
                ''idx'' indexed_world) = Inr first_index"
    by (simp add: run_persist indexed_world_def)
  have a_new: "fst (build_automerging_index example_libs [''first''] ''llm'' embed_model_name
                ''idx'' None empty_world) = Inr first_index"
    by (simp add: run_persist first_index_def)
  have s_new: "fst (build_sentence_window_index example_libs ''first'' ''llm'' embed_model_name
                ''idx'' empty_world) = Inr first_index"
    by (simp add: run_persist first_index_def)
  have a_bad: "fst (build_automerging_index example_libs [''second''] ''llm'' embed_model_name
                ''idx'' None plain_dir_world)
                 = Inl (FileNotFoundError ''No such file or directory: idx'')"
    by (simp add: run_persist plain_dir_world_def)
  from t [where save_dir = "''idx''" and w = indexed_world and env = example_libs
            and documents = "[''second'']" and llm = "''llm''" and embed_model = embed_model_name
            and chunk_sizes = None,
          THEN conjunct2, THEN conjunct1]
  have 2: "snd (build_automerging_index example_libs [''second''] ''llm'' embed_model_name
             ''idx'' None indexed_world) = indexed_world"
    using ex by simp
  from t [where save_dir = "''idx''" and w = indexed_world and env = example_libs
            and doc = "''second''" and llm = "''llm''" and embed_model = embed_model_name,
          THEN conjunct2, THEN conjunct2]
  have 3: "snd (build_sentence_window_index example_libs ''second'' ''llm'' embed_model_name
             ''idx'' indexed_world) = indexed_world"
    using ex by simp
  from t [where save_dir = "''idx''" and w = empty_world and env = example_libs
            and documents = "[''first'']" and llm = "''llm''" and embed_model = embed_model_name
            and chunk_sizes = None,
          THEN conjunct2, THEN conjunct1]
  have 4: "disk (snd (build_automerging_index example_libs [''first''] ''llm'' embed_model_name
                   ''idx'' None empty_world)) = [(''idx'', Some first_index)]"
    using nex a_new by (simp add: empty_world_def)
  from t [where save_dir = "''idx''" and w = empty_world and env = example_libs
            and doc = "''first''" and llm = "''llm''" and embed_model = embed_model_name,
          THEN conjunct2, THEN conjunct2]
  have 5: "disk (snd (build_sentence_window_index example_libs ''first'' ''llm''
                   embed_model_name ''idx'' empty_world)) = [(''idx'', Some first_index)]"
    using nex s_new by (simp add: empty_world_def)
  from t [where save_dir = "''idx''" and w = plain_dir_world and env = example_libs
            and documents = "[''second'']" and llm = "''llm''" and embed_model = embed_model_name
            and chunk_sizes = None,
          THEN conjunct2, THEN conjunct1]
  have 6: "snd (build_automerging_index example_libs [''second''] ''llm'' embed_model_name
             ''idx'' None plain_dir_world) = plain_dir_world"
    using pex by simp
  show ?thesis
    by (intro conjI 1 ex a_ok 2 s_ok 3 nex 4 5 pex a_bad 6)
qed

text \<open>
  The claim C1 as first stated covers every chunking strategy. Two auto-merging builds
  into the same \<^verbatim>\<open>save_dir\<close>, both returning normally: no collection exists afterwards,
  and the second build returns and leaves on disk the index of the first.
\<close>

theorem automerging_rebuild_keeps_first_build:
  "build_automerging_index example_libs [''second''] ''llm'' embed_model_name ''idx'' None
     (snd (build_automerging_index example_libs [''first''] ''llm'' embed_model_name ''idx'' None
        empty_world))
   = (Inr \<lparr>vector_nodes = [''first''], docstore = [''first'']\<rparr>,
      \<lparr>collections = [],
       disk = [(''idx'', Some \<lparr>vector_nodes = [''first''], docstore = [''first'']\<rparr>)],
       events = []\<rparr>)"
  by (simp add: run_persist)

section \<open>The \<^verbatim>\<open>/build-index\<close> handler\<close>

lemma bind_unexpected_automerging:
  "bind_keywords build_automerging_index_signature
     [(''input_files'', a), (''index_name'', b), (''chunk_sizes'', c)]
   = Inl (TypeError (''build_automerging_index() got an unexpected keyword argument ''
        @ squote @ ''input_files'' @ squote))"
  by (simp add: bind_keywords_def build_automerging_index_signature_def quoted_def)

lemma bind_unexpected_sentence_window:
  "bind_keywords build_sentence_window_index_signature
     [(''input_files'', a), (''index_name'', b)]
   = Inl (TypeError (''build_sentence_window_index() got an unexpected keyword argument ''
        @ squote @ ''input_files'' @ squote))"
  by (simp add: bind_keywords_def build_sentence_window_index_signature_def quoted_def)

lemma build_index_try_cases:
  "build_index_try lib env request w =
     (case resolve_input_files env request of
        Inl e \<Rightarrow> (Inl e, w)
      | Inr files \<Rightarrow>
          if files = [] then (Inl (ValueError ''No valid input files found''), w)
          else (case build_dispatch lib env request files w of
                  (Inl e, w') \<Rightarrow> (Inl e, w')
                | (Inr u, w') \<Rightarrow>
                    (Inr \<lparr>response_status = ''success'',
                          response_message = ''Index '' @ squote @ build_index_name request
                             @ squote @ '' built successfully'',
                          response_num_files = length files\<rparr>, w')))"
  by (simp add: build_index_try_def and_then_def lift_def raise_def ok_def
      split: sum.splits prod.splits)

lemma dispatch_mismatch:
  assumes "build_index_type request = ''automerging''
         \<or> build_index_type request = ''sentence_window''"
  shows "build_dispatch lib env request files w =
     (Inl (TypeError ((if build_index_type request = ''automerging''
                       then ''build_automerging_index'' else ''build_sentence_window_index'')
             @ ''() got an unexpected keyword argument '' @ squote @ ''input_files'' @ squote)), w)"
  using assms
  by (auto simp: build_dispatch_def call_by_keyword_def and_then_def lift_def
      bind_unexpected_automerging bind_unexpected_sentence_window)

lemma dispatch_invalid:
  assumes "build_index_type request \<noteq> ''basic''"
    and "build_index_type request \<noteq> ''automerging''"
    and "build_index_type request \<noteq> ''sentence_window''"
  shows "build_dispatch lib env request files w =
     (Inl (ValueError (''Invalid index type: '' @ build_index_type request)), w)"
  using assms by (simp add: build_dispatch_def raise_def)

lemma sublist_after: "sublist t (p @ t)"
  unfolding sublist_def by (intro exI [of _ p] exI [of _ "[]"]) simp

lemma example_scan:
  "get_all_files_from_directory_with_extension example_fs ''docs'' (Some ''.txt'')
     = Inr [''docs/a.txt'']"
  by (simp add: get_all_files_from_directory_with_extension_def example_scan_docs
      matches_extension_def suffix_def)

lemma example_resolve:
  "resolve_input_files example_deps (example_build\<lparr>build_index_type := t\<rparr>)
     = Inr [''docs/a.txt'']"
  by (simp add: resolve_input_files_def example_deps_def example_build_def example_scan)

text \<open>
  C3. A \<^verbatim>\<open>/build-index\<close> request whose resolved input files are empty fails in the
  \<^verbatim>\<open>try\<close> block with \<^verbatim>\<open>ValueError("No valid input files found")\<close>, which the handler
  turns into HTTP 500 with that message; the world (collections, persisted indexes,
  connection) is what it was.
\<close>

theorem empty_input_fails_unchanged:
  assumes "resolve_input_files env request = Inr []"
  shows "build_index_try lib env request w = (Inl (ValueError ''No valid input files found''), w)
       \<and> build_index_api lib env request w
           = (Inl (HTTPException 500 ''No valid input files found''), w)"
  using assms by (simp add: build_index_api_def build_index_try_cases)

theorem empty_input_fails_unchanged_witness:
  "build_index_try example_libs example_deps
      (example_build\<lparr>build_file_extension := Some ''.pdf''\<rparr>) empty_world
     = (Inl (ValueError ''No valid input files found''), empty_world)
   \<and> build_index_api example_libs example_deps
      (example_build\<lparr>build_file_extension := Some ''.pdf''\<rparr>) empty_world
     = (Inl (HTTPException 500 ''No valid input files found''), empty_world)"
proof -
  have "get_all_files_from_directory_with_extension example_fs ''docs'' (Some ''.pdf'')
          = Inr []"
    by (simp add: get_all_files_from_directory_with_extension_def example_scan_docs
        matches_extension_def suffix_def)
  then have "resolve_input_files example_deps
               (example_build\<lparr>build_file_extension := Some ''.pdf''\<rparr>) = Inr []"
    by (simp add: resolve_input_files_def example_deps_def example_build_def)
  from empty_input_fails_unchanged [OF this] show ?thesis .
qed

text \<open>
  C2. A \<^verbatim>\<open>/build-index\<close> request for \<^verbatim>\<open>automerging\<close> or \<^verbatim>\<open>sentence_window\<close> always
  fails with HTTP 500 and leaves the world untouched, so no index is built. When its
  input files resolve to a non-empty list, the failure is the \<^verbatim>\<open>TypeError\<close> of the call:
  the keyword \<^verbatim>\<open>input_files\<close> names no parameter of the builder.
\<close>

theorem mismatched_builders_fail:
  assumes "build_index_type request = ''automerging''
         \<or> build_index_type request = ''sentence_window''"
  shows "(\<exists>detail. build_index_api lib env request w = (Inl (HTTPException 500 detail), w))
       \<and> (\<forall>files. resolve_input_files env request = Inr files \<and> files \<noteq> [] \<longrightarrow>
            build_index_api lib env request w =
              (Inl (HTTPException 500
                 ((if build_index_type request = ''automerging''
                   then ''build_automerging_index'' else ''build_sentence_window_index'')
                  @ ''() got an unexpected keyword argument '' @ squote @ ''input_files''
                  @ squote)), w))"
  by (auto simp: build_index_api_def build_index_try_cases dispatch_mismatch [OF assms]
      split: sum.splits)

theorem mismatched_builders_fail_witness:
  "build_index_api example_libs example_deps
      (example_build\<lparr>build_index_type := ''automerging''\<rparr>) empty_world
     = (Inl (HTTPException 500
          (''build_automerging_index() got an unexpected keyword argument ''
             @ squote @ ''input_files'' @ squote)), empty_world)
   \<and> build_index_api example_libs example_deps
      (example_build\<lparr>build_index_type := ''sentence_window''\<rparr>) empty_world
     = (Inl (HTTPException 500
          (''build_sentence_window_index() got an unexpected keyword argument ''
             @ squote @ ''input_files'' @ squote)), empty_world)"
proof -
  have a: "build_index_type (example_build\<lparr>build_index_type := ''automerging''\<rparr>) = ''automerging''
         \<or> build_index_type (example_build\<lparr>build_index_type := ''automerging''\<rparr>)
             = ''sentence_window''"
    by simp
  have s: "build_index_type (example_build\<lparr>build_index_type := ''sentence_window''\<rparr>)
             = ''automerging''
         \<or> build_index_type (example_build\<lparr>build_index_type := ''sentence_window''\<rparr>)
             = ''sentence_window''"
    by simp
  from mismatched_builders_fail [OF a, of example_libs example_deps empty_world]
       mismatched_builders_fail [OF s, of example_libs example_deps empty_world]
       example_resolve [of "''automerging''"] example_resolve [of "''sentence_window''"]
  show ?thesis by simp
qed

text \<open>
  C4, as amended. A \<^verbatim>\<open>/build-index\<close> request whose \<^verbatim>\<open>index_type\<close> is none of
  \<^verbatim>\<open>basic\<close>, \<^verbatim>\<open>automerging\<close>, \<^verbatim>\<open>sentence_window\<close> always fails with HTTP 500 and leaves
  the world untouched. When its input files resolve to a non-empty list, the detail is
  \<^verbatim>\<open>Invalid index type: \<close> followed by the \<^verbatim>\<open>index_type\<close>, which therefore contains it.
  (The input files are checked first: with none, the detail is that of C3.)
\<close>

theorem invalid_index_type_detail:
  assumes "build_index_type request \<noteq> ''basic''"
    and "build_index_type request \<noteq> ''automerging''"
    and "build_index_type request \<noteq> ''sentence_window''"
  shows "(\<exists>detail. build_index_api lib env request w = (Inl (HTTPException 500 detail), w))
       \<and> (\<forall>files. resolve_input_files env request = Inr files \<and> files \<noteq> [] \<longrightarrow>
            build_index_api lib env request w =
              (Inl (HTTPException 500 (''Invalid index type: '' @ build_index_type request)), w)
            \<and> sublist (build_index_type request)
                (''Invalid index type: '' @ build_index_type request))"
  using sublist_after [of "build_index_type request" "''Invalid index type: ''"]
  by (auto simp: build_index_api_def build_index_try_cases dispatch_invalid [OF assms]
      split: sum.splits)

theorem invalid_index_type_detail_witness:
  "build_index_api example_libs example_deps
      (example_build\<lparr>build_index_type := ''invalid''\<rparr>) empty_world
     = (Inl (HTTPException 500 ''Invalid index type: invalid''), empty_world)
   \<and> sublist ''invalid'' ''Invalid index type: invalid''"
proof -
  have t: "build_index_type (example_build\<lparr>build_index_type := ''invalid''\<rparr>) \<noteq> ''basic''"
    "build_index_type (example_build\<lparr>build_index_type := ''invalid''\<rparr>) \<noteq> ''automerging''"
    "build_index_type (example_build\<lparr>build_index_type := ''invalid''\<rparr>) \<noteq> ''sentence_window''"
    by simp_all
  from invalid_index_type_detail [OF t, of example_libs example_deps empty_world]
       example_resolve [of "''invalid''"]
  show ?thesis by simp
qed

text \<open>
  The claim C4 as first stated promises the \<^verbatim>\<open>index_type\<close> in the detail of every such
  request. With an empty list of input files the request fails before the type is looked
  at, and the detail does not mention it.
\<close>

theorem invalid_index_type_empty_input:
  "build_index_api example_libs example_deps
      (example_build\<lparr>build_index_type := ''invalid'', build_input_path := FileList []\<rparr>)
      empty_world
     = (Inl (HTTPException 500 ''No valid input files found''), empty_world)
   \<and> \<not> sublist ''invalid'' ''No valid input files found''"
proof -
  have "\<not> sublist ''invalid'' ''No valid input files found''"
    by code_simp
  then show ?thesis
    by (simp add: build_index_api_def build_index_try_cases resolve_input_files_def
        example_build_def)
qed

text \<open>
  C8. The input files of a \<^verbatim>\<open>/build-index\<close> request: a list of file paths is used as it
  is; a directory path is scanned, and over the scan modelled above the result is exactly
  the regular files directly in the directory that match the request's
  \<^verbatim>\<open>file_extension\<close>.
\<close>

theorem resolved_input_files:
  "(build_input_path request = FileList files \<longrightarrow> resolve_input_files env request = Inr files)
   \<and> (build_input_path request = DirectoryPath d
        \<and> utils_get_all_files_from_directory env
            = get_all_files_from_directory_with_extension fs
        \<and> path_is_dir fs (Path d) \<longrightarrow>
      (\<exists>found. resolve_input_files env request = Inr found
         \<and> set found = {f. \<exists>c. f = str_path (child (Path d) c)
                             \<and> c \<noteq> ''.'' \<and> c \<noteq> ''..''
                             \<and> path_is_file fs (child (Path d) c)
                             \<and> matches_extension (build_file_extension request) f}))"
proof (intro conjI impI)
  assume "build_input_path request = FileList files"
  then show "resolve_input_files env request = Inr files"
    by (simp add: resolve_input_files_def)
next
  assume a: "build_input_path request = DirectoryPath d
        \<and> utils_get_all_files_from_directory env
            = get_all_files_from_directory_with_extension fs
        \<and> path_is_dir fs (Path d)"
  then obtain scanned where
    s: "get_all_files_from_directory fs d = Inr scanned"
       "set scanned = {str_path (child (Path d) c) | c.
                 c \<noteq> ''.'' \<and> c \<noteq> ''..'' \<and> path_is_file fs (child (Path d) c)}"
    using scan_returns [of fs d] by blast
  have "resolve_input_files env request
          = Inr (filter (matches_extension (build_file_extension request)) scanned)"
    using a s(1)
    by (simp add: resolve_input_files_def get_all_files_from_directory_with_extension_def)
  moreover have "set (filter (matches_extension (build_file_extension request)) scanned)
      = {f. \<exists>c. f = str_path (child (Path d) c)
                             \<and> c \<noteq> ''.'' \<and> c \<noteq> ''..''
                             \<and> path_is_file fs (child (Path d) c)
                             \<and> matches_extension (build_file_extension request) f}"
    unfolding set_filter s(2) by blast
  ultimately show "\<exists>found. resolve_input_files env request = Inr found
         \<and> set found = {f. \<exists>c. f = str_path (child (Path d) c)
                             \<and> c \<noteq> ''.'' \<and> c \<noteq> ''..''
                             \<and> path_is_file fs (child (Path d) c)
                             \<and> matches_extension (build_file_extension request) f}"
    by blast
qed

theorem resolved_input_files_witness:
  "resolve_input_files example_deps example_build = Inr [''docs/a.txt'']
   \<and> {f. \<exists>c. f = str_path (child (Path ''docs'') c) \<and> c \<noteq> ''.'' \<and> c \<noteq> ''..''
             \<and> path_is_file example_fs (child (Path ''docs'') c)
             \<and> matches_extension (build_file_extension example_build) f}
       = {''docs/a.txt''}
   \<and> resolve_input_files example_deps
        (example_build\<lparr>build_input_path := FileList [''x'', ''docs/sub'']\<rparr>)
       = Inr [''x'', ''docs/sub'']"
proof -
  have r: "resolve_input_files example_deps example_build = Inr [''docs/a.txt'']"
    by (simp add: resolve_input_files_def example_deps_def example_build_def example_scan)
  have h: "build_input_path example_build = DirectoryPath ''docs''
        \<and> utils_get_all_files_from_directory example_deps
            = get_all_files_from_directory_with_extension example_fs
        \<and> path_is_dir example_fs (Path ''docs'')"
    by (simp add: example_build_def example_deps_def run_scan)
  have l: "build_input_path
             (example_build\<lparr>build_input_path := FileList [''x'', ''docs/sub'']\<rparr>)
           = FileList [''x'', ''docs/sub'']"
    by simp
  note t = resolved_input_files
  from t [of example_build _ example_deps "''docs''" example_fs,
          THEN conjunct2, THEN mp, OF h]
  obtain found where f: "resolve_input_files example_deps example_build = Inr found"
    and st: "set found = {f. \<exists>c. f = str_path (child (Path ''docs'') c)
             \<and> c \<noteq> ''.'' \<and> c \<noteq> ''..''
             \<and> path_is_file example_fs (child (Path ''docs'') c)
             \<and> matches_extension (build_file_extension example_build) f}"
    by (elim exE conjE)
  have fe: "found = [''docs/a.txt'']"
    using f unfolding r by simp
  have 1: "{f. \<exists>c. f = str_path (child (Path ''docs'') c) \<and> c \<noteq> ''.'' \<and> c \<noteq> ''..''
             \<and> path_is_file example_fs (child (Path ''docs'') c)
             \<and> matches_extension (build_file_extension example_build) f}
       = {''docs/a.txt''}"
    unfolding st [symmetric] fe by simp
  from t [of "example_build\<lparr>build_input_path := FileList [''x'', ''docs/sub'']\<rparr>"
             "[''x'', ''docs/sub'']" example_deps,
          THEN conjunct1, THEN mp, OF l]
  have 2: "resolve_input_files example_deps
        (example_build\<lparr>build_input_path := FileList [''x'', ''docs/sub'']\<rparr>)
       = Inr [''x'', ''docs/sub'']" .
  show ?thesis
    by (intro conjI r 1 2)
qed

section \<open>The streaming handlers\<close>

lemma stream_loop_eq: "stream_loop cs acc = (forwarded cs, acc @ concat cs)"
  by (induction cs arbitrary: acc) (simp_all add: forwarded_def)

lemma yielded_append: "yielded (xs @ ys) = yielded xs @ yielded ys"
  by (induction xs rule: yielded.induct) simp_all

lemma written_append: "written (xs @ ys) = written xs @ written ys"
  by (induction xs rule: written.induct) simp_all

lemma yielded_forwarded: "yielded (forwarded cs) = cs"
  by (induction cs) (simp_all add: forwarded_def)

lemma written_forwarded: "written (forwarded cs) = []"
  by (induction cs) (simp_all add: forwarded_def)

lemma stream_then_write_eq:
  "stream_then_write env response path record_of =
     (case snd response of
        Some e \<Rightarrow> (forwarded (fst response), Some e)
      | None \<Rightarrow>
          (case open_for_writing env path of
             Some e \<Rightarrow> (forwarded (fst response), Some e)
           | None \<Rightarrow> (forwarded (fst response)
                        @ [FileWritten path (record_of (concat (fst response)))], None)))"
  by (simp add: stream_then_write_def stream_loop_eq)

lemma stream_then_write_completes:
  assumes "stream_then_write env response path record_of = (evs, None)"
  shows "evs = forwarded (fst response)
                 @ [FileWritten path (record_of (concat (fst response)))]"
  using assms by (auto simp: stream_then_write_eq split: option.splits)

lemma query_api_Inr:
  assumes "query_from_documents_api env rq = Inr r"
  shows "\<exists>ts name. get_timestamp env = Inr ts
       \<and> get_chat_file_name env (query_question rq) = Inr name
       \<and> r = \<lparr>status_code = 200, media_type = ''text/plain'',
              body = query_generate env rq (ts @ ''RAG-'' @ name)
                       (os_path_join (query_chat_record_dir rq)
                          ((ts @ ''RAG-'' @ name) @ ''.md''))\<rparr>"
  using assms
  by (auto simp: query_from_documents_api_def query_try_def Let_def split: sum.splits)

lemma chat_api_Inr:
  assumes "chat_with_llm_api env rc = Inr r"
  shows "\<exists>ts name. get_timestamp env = Inr ts
       \<and> get_chat_file_name env (chat_question rc) = Inr name
       \<and> r = \<lparr>status_code = 200, media_type = ''text/plain'',
              body = chat_generate env rc (ts @ ''Chat-'' @ name)
                       (os_path_join (chat_chat_record_dir rc)
                          ((ts @ ''Chat-'' @ name) @ ''.md''))\<rparr>"
  using assms
  by (auto simp: chat_with_llm_api_def chat_try_def Let_def split: sum.splits)

lemma query_generate_completes:
  assumes "query_generate env rq file_name path = (evs, None)"
  shows "\<exists>fragments print_data count.
           evs = Stdout count # forwarded fragments
                   @ [FileWritten path
                        (query_record file_name (query_question rq) (concat fragments)
                           print_data)]"
  using assms
  by (auto simp: query_generate_def Let_def split: sum.splits prod.splits
      dest!: stream_then_write_completes)

lemma chat_generate_completes:
  assumes "chat_generate env rc file_name path = (evs, None)"
  shows "\<exists>fragments.
           evs = forwarded fragments
                   @ [FileWritten path
                        (chat_record file_name (chat_question rc) (concat fragments))]"
  using assms
  by (auto simp: chat_generate_def dest!: stream_then_write_completes)

lemma written_query_generate:
  "(p, c) \<in> set (written (fst (query_generate env rq file_name path))) \<Longrightarrow> p = path"
  by (auto simp: query_generate_def Let_def stream_then_write_eq written_append
      written_forwarded split: sum.splits option.splits prod.splits)

lemma written_chat_generate:
  "(p, c) \<in> set (written (fst (chat_generate env rc file_name path))) \<Longrightarrow> p = path"
  by (auto simp: chat_generate_def stream_then_write_eq written_append written_forwarded
      split: sum.splits option.splits prod.splits)

lemmas run_stream =
  query_from_documents_api_def query_try_def query_generate_def chat_with_llm_api_def
  chat_try_def chat_generate_def stream_then_write_eq forwarded_def Let_def
  os_path_join_def query_record_def chat_record_def query_prompt_def
  example_deps_def broken_stream_deps_def example_query_def example_chat_def digit_char_def

text \<open>
  C5, as amended. A failure while \<^verbatim>\<open>/query\<close> computes the transcript's file name (the
  timestamp, the sanitized question) is raised inside the handler's \<^verbatim>\<open>try\<close> and
  surfaces as HTTP 500 with the exception's message as detail. Once the handler has
  returned its streaming response, a model stream that breaks after yielding fragments
  does not: the response has status 200, the caller has received the fragments, the body
  ends with the exception itself, and no transcript is written.
\<close>

theorem query_failures:
  "(get_timestamp env = Inl e \<longrightarrow>
       query_from_documents_api env rq = Inl (HTTPException 500 (str_exn e)))
   \<and> (get_timestamp env = Inr ts \<and> get_chat_file_name env (query_question rq) = Inl e \<longrightarrow>
       query_from_documents_api env rq = Inl (HTTPException 500 (str_exn e)))
   \<and> (get_timestamp env = Inr ts \<and> get_chat_file_name env (query_question rq) = Inr name
        \<and> basic_query_from_documents env (query_question rq) (query_index_names rq)
             (query_similarity_top_k rq) = Inr source_nodes
        \<and> print_data_sources env source_nodes = Inr print_data
        \<and> model_stream env (query_prompt (str_join newline (map node_text source_nodes))
             (query_question rq)) = (c # cs, Some e) \<longrightarrow>
       (\<exists>r. query_from_documents_api env rq = Inr r \<and> status_code r = 200
            \<and> yielded (fst (body r)) = c # cs \<and> written (fst (body r)) = []
            \<and> snd (body r) = Some e))"
  by (simp add: query_from_documents_api_def query_try_def Let_def query_generate_def
      stream_then_write_eq yielded_forwarded written_forwarded)

theorem query_failures_witness:
  "query_from_documents_api (example_deps\<lparr>get_timestamp := Inl (OSError ''no clock'')\<rparr>)
      example_query = Inl (HTTPException 500 ''no clock'')
   \<and> query_from_documents_api
        (example_deps\<lparr>get_chat_file_name := (\<lambda>q. Inl (ValueError ''bad question''))\<rparr>)
        example_query = Inl (HTTPException 500 ''bad question'')
   \<and> (\<exists>r. query_from_documents_api broken_stream_deps example_query = Inr r
          \<and> status_code r = 200 \<and> yielded (fst (body r)) = [''Par'']
          \<and> written (fst (body r)) = [] \<and> snd (body r) = Some (RuntimeError ''connection reset''))"
proof -
  let ?nodes = "[\<lparr>node_text = ''Paris is the capital of France.'', node_index = ''notes''\<rparr>]"
  have a: "get_timestamp (example_deps\<lparr>get_timestamp := Inl (OSError ''no clock'')\<rparr>)
             = Inl (OSError ''no clock'')"
    by simp
  have b: "get_timestamp
             (example_deps\<lparr>get_chat_file_name := (\<lambda>q. Inl (ValueError ''bad question''))\<rparr>)
             = Inr ''20240101120000''
         \<and> get_chat_file_name
             (example_deps\<lparr>get_chat_file_name := (\<lambda>q. Inl (ValueError ''bad question''))\<rparr>)
             (query_question example_query) = Inl (ValueError ''bad question'')"
    by (simp add: example_deps_def)
  have c: "get_timestamp broken_stream_deps = Inr ''20240101120000''
         \<and> get_chat_file_name broken_stream_deps (query_question example_query) = Inr ''capital?''
         \<and> basic_query_from_documents broken_stream_deps (query_question example_query)
             (query_index_names example_query) (query_similarity_top_k example_query)
             = Inr ?nodes
         \<and> print_data_sources broken_stream_deps ?nodes = Inr ''Paris is the capital of France.''
         \<and> model_stream broken_stream_deps
             (query_prompt (str_join newline (map node_text ?nodes))
                (query_question example_query))
             = ([''Par''], Some (RuntimeError ''connection reset''))"
    by (simp add: broken_stream_deps_def example_deps_def example_query_def)
  from query_failures
         [of "example_deps\<lparr>get_timestamp := Inl (OSError ''no clock'')\<rparr>"
             "OSError ''no clock''" example_query] a
  have 1: "query_from_documents_api (example_deps\<lparr>get_timestamp := Inl (OSError ''no clock'')\<rparr>)
      example_query = Inl (HTTPException 500 ''no clock'')"
    by simp
  from query_failures
         [of "example_deps\<lparr>get_chat_file_name := (\<lambda>q. Inl (ValueError ''bad question''))\<rparr>"
             "ValueError ''bad question''" example_query "''20240101120000''"] b
  have 2: "query_from_documents_api
        (example_deps\<lparr>get_chat_file_name := (\<lambda>q. Inl (ValueError ''bad question''))\<rparr>)
        example_query = Inl (HTTPException 500 ''bad question'')"
    by simp
  from query_failures
         [of broken_stream_deps "RuntimeError ''connection reset''" example_query
             "''20240101120000''" "''capital?''" ?nodes "''Paris is the capital of France.''"
             "''Par''" "[]"] c
  have 3: "\<exists>r. query_from_documents_api broken_stream_deps example_query = Inr r
          \<and> status_code r = 200 \<and> yielded (fst (body r)) = [''Par'']
          \<and> written (fst (body r)) = [] \<and> snd (body r) = Some (RuntimeError ''connection reset'')"
    by blast
  from 1 2 3 show ?thesis by blast
qed

text \<open>
  The claim C5 as first stated has every failure during streaming surface as HTTP 500 with
  the exception's message. Here the model's stream breaks after one fragment: the handler
  has returned a response with status 200, not an HTTP 500.
\<close>

theorem query_stream_failure_not_500:
  "query_from_documents_api broken_stream_deps example_query =
     Inr \<lparr>status_code = 200, media_type = ''text/plain'',
          body = ([Stdout ''Number of source nodes: 1'', Pulled ''Par'', Yielded ''Par''],
                  Some (RuntimeError ''connection reset''))\<rparr>
   \<and> query_from_documents_api broken_stream_deps example_query
        \<noteq> Inl (HTTPException 500 ''connection reset'')"
  by (simp add: run_stream)

lemma completed_body:
  "(query_from_documents_api env rq = Inr r \<and> snd (body r) = None \<longrightarrow>
      (\<exists>fragments count path file_name print_data.
          fst (body r) = Stdout count # forwarded fragments
             @ [FileWritten path
                  (query_record file_name (query_question rq) (concat fragments) print_data)]
        \<and> yielded (fst (body r)) = fragments
        \<and> written (fst (body r)) =
            [(path, query_record file_name (query_question rq)
                      (concat (yielded (fst (body r)))) print_data)]))
   \<and> (chat_with_llm_api env rc = Inr r' \<and> snd (body r') = None \<longrightarrow>
      (\<exists>fragments path file_name.
          fst (body r') = forwarded fragments
             @ [FileWritten path (chat_record file_name (chat_question rc) (concat fragments))]
        \<and> yielded (fst (body r')) = fragments
        \<and> written (fst (body r')) =
            [(path, chat_record file_name (chat_question rc)
                      (concat (yielded (fst (body r')))))]))"
proof (intro conjI impI)
  assume a: "query_from_documents_api env rq = Inr r \<and> snd (body r) = None"
  then obtain file_name path where b: "body r = query_generate env rq file_name path"
    using query_api_Inr [of env rq r] by auto
  with a have "query_generate env rq file_name path = (fst (body r), None)"
    by (metis prod.collapse)
  from query_generate_completes [OF this] obtain fragments print_data count where
    evs: "fst (body r) = Stdout count # forwarded fragments
           @ [FileWritten path
                (query_record file_name (query_question rq) (concat fragments) print_data)]"
    by blast
  have "yielded (fst (body r)) = fragments"
    by (simp add: evs yielded_append yielded_forwarded)
  moreover have "written (fst (body r)) =
      [(path, query_record file_name (query_question rq) (concat fragments) print_data)]"
    by (simp add: evs written_append written_forwarded)
  ultimately show "\<exists>fragments count path file_name print_data.
          fst (body r) = Stdout count # forwarded fragments
             @ [FileWritten path
                  (query_record file_name (query_question rq) (concat fragments) print_data)]
        \<and> yielded (fst (body r)) = fragments
        \<and> written (fst (body r)) =
            [(path, query_record file_name (query_question rq)
                      (concat (yielded (fst (body r)))) print_data)]"
    using evs by metis
next
  assume a: "chat_with_llm_api env rc = Inr r' \<and> snd (body r') = None"
  then obtain file_name path where b: "body r' = chat_generate env rc file_name path"
    using chat_api_Inr [of env rc r'] by auto
  with a have "chat_generate env rc file_name path = (fst (body r'), None)"
    by (metis prod.collapse)
  from chat_generate_completes [OF this] obtain fragments where
    evs: "fst (body r') = forwarded fragments
           @ [FileWritten path (chat_record file_name (chat_question rc) (concat fragments))]"
    by blast
  have "yielded (fst (body r')) = fragments"
    by (simp add: evs yielded_append yielded_forwarded)
  moreover have "written (fst (body r')) =
      [(path, chat_record file_name (chat_question rc) (concat fragments))]"
    by (simp add: evs written_append written_forwarded)
  ultimately show "\<exists>fragments path file_name.
          fst (body r') = forwarded fragments
             @ [FileWritten path (chat_record file_name (chat_question rc) (concat fragments))]
        \<and> yielded (fst (body r')) = fragments
        \<and> written (fst (body r')) =
            [(path, chat_record file_name (chat_question rc)
                      (concat (yielded (fst (body r')))))]"
    using evs by metis
qed

lemma query_generate_after_stream:
  assumes "basic_query_from_documents env (query_question rq) (query_index_names rq)
          (query_similarity_top_k rq) = Inr source_nodes"
    and "print_data_sources env source_nodes = Inr print_data"
    and "model_stream env (query_prompt (str_join newline (map node_text source_nodes))
          (query_question rq)) = (fragments, None)"
  shows "query_generate env rq file_name path =
     (case open_for_writing env path of
        None \<Rightarrow>
          (Stdout (''Number of source nodes: '' @ str_nat (length source_nodes))
             # forwarded fragments
             @ [FileWritten path
                  (query_record file_name (query_question rq) (concat fragments) print_data)],
           None)
      | Some e \<Rightarrow>
          (Stdout (''Number of source nodes: '' @ str_nat (length source_nodes))
             # forwarded fragments, Some e))"
proof (cases "open_for_writing env path")
  case None
  with assms show ?thesis
    by (simp add: query_generate_def Let_def stream_then_write_eq del: str_nat.simps)
next
  case (Some e)
  with assms show ?thesis
    by (simp add: query_generate_def Let_def stream_then_write_eq del: str_nat.simps)
qed

lemma chat_generate_after_stream:
  assumes "model_stream env (chat_question rc) = (fragments, None)"
  shows "chat_generate env rc file_name path =
     (case open_for_writing env path of
        None \<Rightarrow>
          (forwarded fragments
             @ [FileWritten path (chat_record file_name (chat_question rc) (concat fragments))],
           None)
      | Some e \<Rightarrow> (forwarded fragments, Some e))"
proof (cases "open_for_writing env path")
  case None
  with assms show ?thesis
    by (simp add: chat_generate_def stream_then_write_eq)
next
  case (Some e)
  with assms show ?thesis
    by (simp add: chat_generate_def stream_then_write_eq)
qed

lemma query_stream_complete:
  "get_timestamp env = Inr ts \<and> get_chat_file_name env (query_question rq) = Inr name
     \<and> basic_query_from_documents env (query_question rq) (query_index_names rq)
          (query_similarity_top_k rq) = Inr source_nodes
     \<and> print_data_sources env source_nodes = Inr print_data
     \<and> model_stream env (query_prompt (str_join newline (map node_text source_nodes))
          (query_question rq)) = (fragments, None) \<longrightarrow>
   (\<exists>r. query_from_documents_api env rq = Inr r \<and> yielded (fst (body r)) = fragments
      \<and> (case open_for_writing env
                (os_path_join (query_chat_record_dir rq) (ts @ ''RAG-'' @ name @ ''.md'')) of
            None \<Rightarrow>
              snd (body r) = None
              \<and> written (fst (body r)) =
                  [(os_path_join (query_chat_record_dir rq) (ts @ ''RAG-'' @ name @ ''.md''),
                    query_record (ts @ ''RAG-'' @ name) (query_question rq) (concat fragments)
                      print_data)]
          | Some e \<Rightarrow> snd (body r) = Some e \<and> written (fst (body r)) = []))"
proof
  let ?path = "os_path_join (query_chat_record_dir rq) (ts @ ''RAG-'' @ name @ ''.md'')"
  let ?r = "\<lparr>status_code = 200, media_type = ''text/plain'',
             body = query_generate env rq (ts @ ''RAG-'' @ name) ?path\<rparr>"
  assume h: "get_timestamp env = Inr ts \<and> get_chat_file_name env (query_question rq) = Inr name
     \<and> basic_query_from_documents env (query_question rq) (query_index_names rq)
          (query_similarity_top_k rq) = Inr source_nodes
     \<and> print_data_sources env source_nodes = Inr print_data
     \<and> model_stream env (query_prompt (str_join newline (map node_text source_nodes))
          (query_question rq)) = (fragments, None)"
  then have api: "query_from_documents_api env rq = Inr ?r"
    by (simp add: query_from_documents_api_def query_try_def Let_def)
  note g = query_generate_after_stream
             [of env rq source_nodes print_data fragments "ts @ ''RAG-'' @ name" ?path]
  from h have gen: "body ?r =
     (case open_for_writing env ?path of
        None \<Rightarrow>
          (Stdout (''Number of source nodes: '' @ str_nat (length source_nodes))
             # forwarded fragments
             @ [FileWritten ?path
                  (query_record (ts @ ''RAG-'' @ name) (query_question rq) (concat fragments)
                     print_data)],
           None)
      | Some e \<Rightarrow>
          (Stdout (''Number of source nodes: '' @ str_nat (length source_nodes))
             # forwarded fragments, Some e))"
    using g by simp
  have y: "yielded (fst (body ?r)) = fragments"
    unfolding gen by (cases "open_for_writing env ?path")
      (simp_all add: yielded_append yielded_forwarded del: str_nat.simps)
  have w: "case open_for_writing env ?path of
            None \<Rightarrow>
              snd (body ?r) = None
              \<and> written (fst (body ?r)) =
                  [(?path, query_record (ts @ ''RAG-'' @ name) (query_question rq)
                             (concat fragments) print_data)]
          | Some e \<Rightarrow> snd (body ?r) = Some e \<and> written (fst (body ?r)) = []"
    unfolding gen by (cases "open_for_writing env ?path")
      (simp_all add: written_append written_forwarded del: str_nat.simps)
  show "\<exists>r. query_from_documents_api env rq = Inr r \<and> yielded (fst (body r)) = fragments
      \<and> (case open_for_writing env ?path of
            None \<Rightarrow>
              snd (body r) = None
              \<and> written (fst (body r)) =
                  [(?path, query_record (ts @ ''RAG-'' @ name) (query_question rq)
                             (concat fragments) print_data)]
          | Some e \<Rightarrow> snd (body r) = Some e \<and> written (fst (body r)) = [])"
    by (intro exI [of _ ?r] conjI api y w)
qed

lemma chat_stream_complete:
  "get_timestamp env = Inr ts \<and> get_chat_file_name env (chat_question rc) = Inr name
     \<and> model_stream env (chat_question rc) = (fragments, None) \<longrightarrow>
   (\<exists>r. chat_with_llm_api env rc = Inr r \<and> yielded (fst (body r)) = fragments
      \<and> (case open_for_writing env
                (os_path_join (chat_chat_record_dir rc) (ts @ ''Chat-'' @ name @ ''.md'')) of
            None \<Rightarrow>
              snd (body r) = None
              \<and> written (fst (body r)) =
                  [(os_path_join (chat_chat_record_dir rc) (ts @ ''Chat-'' @ name @ ''.md''),
                    chat_record (ts @ ''Chat-'' @ name) (chat_question rc) (concat fragments))]
          | Some e \<Rightarrow> snd (body r) = Some e \<and> written (fst (body r)) = []))"
proof
  let ?path = "os_path_join (chat_chat_record_dir rc) (ts @ ''Chat-'' @ name @ ''.md'')"
  let ?r = "\<lparr>status_code = 200, media_type = ''text/plain'',
             body = chat_generate env rc (ts @ ''Chat-'' @ name) ?path\<rparr>"
  assume h: "get_timestamp env = Inr ts \<and> get_chat_file_name env (chat_question rc) = Inr name
     \<and> model_stream env (chat_question rc) = (fragments, None)"
  then have api: "chat_with_llm_api env rc = Inr ?r"
    by (simp add: chat_with_llm_api_def chat_try_def Let_def)
  note g = chat_generate_after_stream [of env rc fragments "ts @ ''Chat-'' @ name" ?path]
  from h have gen: "body ?r =
     (case open_for_writing env ?path of
        None \<Rightarrow>
          (forwarded fragments
             @ [FileWritten ?path
                  (chat_record (ts @ ''Chat-'' @ name) (chat_question rc) (concat fragments))],
           None)
      | Some e \<Rightarrow> (forwarded fragments, Some e))"
    using g by simp
  have y: "yielded (fst (body ?r)) = fragments"
    unfolding gen by (cases "open_for_writing env ?path")
      (simp_all add: yielded_append yielded_forwarded)
  have w: "case open_for_writing env ?path of
            None \<Rightarrow>
              snd (body ?r) = None
              \<and> written (fst (body ?r)) =
                  [(?path, chat_record (ts @ ''Chat-'' @ name) (chat_question rc)
                             (concat fragments))]
          | Some e \<Rightarrow> snd (body ?r) = Some e \<and> written (fst (body ?r)) = []"
    unfolding gen by (cases "open_for_writing env ?path")
      (simp_all add: written_append written_forwarded)
  show "\<exists>r. chat_with_llm_api env rc = Inr r \<and> yielded (fst (body r)) = fragments
      \<and> (case open_for_writing env ?path of
            None \<Rightarrow>
              snd (body r) = None
              \<and> written (fst (body r)) =
                  [(?path, chat_record (ts @ ''Chat-'' @ name) (chat_question rc)
                             (concat fragments))]
          | Some e \<Rightarrow> snd (body r) = Some e \<and> written (fst (body r)) = [])"
    by (intro exI [of _ ?r] conjI api y w)
qed

text \<open>
  C6, as amended. When the body of a \<^verbatim>\<open>/query\<close> or \<^verbatim>\<open>/chat\<close> response completes: each
  chunk was yielded as soon as it was pulled from the model; the file was written once,
  as the last event, after the last fragment was yielded; and what was written is the
  file name, the question, then under \<^verbatim>\<open>[answer]:\<close> the concatenation, in order, of
  exactly the fragments yielded (and for \<^verbatim>\<open>/query\<close> the source listing after it). When
  the model's stream completes, every one of its fragments is yielded; the body then
  completes and writes that record if the transcript file can be opened, and otherwise
  ends with the exception of \<^verbatim>\<open>open\<close> and writes nothing.
\<close>

theorem transcript_is_streamed_answer:
  "(query_from_documents_api env rq = Inr r \<and> snd (body r) = None \<longrightarrow>
      (\<exists>fragments count path file_name print_data.
          fst (body r) = Stdout count # forwarded fragments
             @ [FileWritten path
                  (file_name @ newline @ newline @ ''[question]:'' @ newline @ newline
                     @ query_question rq @ newline @ newline @ ''[answer]:'' @ newline @ newline
                     @ concat fragments @ newline @ newline @ ''[source_datas]:'' @ newline
                     @ newline @ print_data)]
        \<and> yielded (fst (body r)) = fragments
        \<and> written (fst (body r)) =
            [(path,
              file_name @ newline @ newline @ ''[question]:'' @ newline @ newline
                @ query_question rq @ newline @ newline @ ''[answer]:'' @ newline @ newline
                @ concat (yielded (fst (body r))) @ newline @ newline @ ''[source_datas]:''
                @ newline @ newline @ print_data)]))
   \<and> (chat_with_llm_api env rc = Inr r' \<and> snd (body r') = None \<longrightarrow>
      (\<exists>fragments path file_name.
          fst (body r') = forwarded fragments
             @ [FileWritten path
                  (file_name @ newline @ newline @ ''[question]:'' @ newline @ newline
                     @ chat_question rc @ newline @ newline @ ''[answer]:'' @ newline @ newline
                     @ concat fragments)]
        \<and> yielded (fst (body r')) = fragments
        \<and> written (fst (body r')) =
            [(path,
              file_name @ newline @ newline @ ''[question]:'' @ newline @ newline
                @ chat_question rc @ newline @ newline @ ''[answer]:'' @ newline @ newline
                @ concat (yielded (fst (body r'))))]))
   \<and> (get_timestamp env = Inr ts \<and> get_chat_file_name env (query_question rq) = Inr name
        \<and> basic_query_from_documents env (query_question rq) (query_index_names rq)
             (query_similarity_top_k rq) = Inr source_nodes
        \<and> print_data_sources env source_nodes = Inr print_data
        \<and> model_stream env (query_prompt (str_join newline (map node_text source_nodes))
             (query_question rq)) = (fragments, None) \<longrightarrow>
      (\<exists>r. query_from_documents_api env rq = Inr r \<and> yielded (fst (body r)) = fragments
         \<and> (case open_for_writing env
                   (os_path_join (query_chat_record_dir rq) (ts @ ''RAG-'' @ name @ ''.md'')) of
               None \<Rightarrow>
                 snd (body r) = None
                 \<and> written (fst (body r)) =
                     [(os_path_join (query_chat_record_dir rq) (ts @ ''RAG-'' @ name @ ''.md''),
                       (ts @ ''RAG-'' @ name) @ newline @ newline @ ''[question]:'' @ newline
                         @ newline @ query_question rq @ newline @ newline @ ''[answer]:''
                         @ newline @ newline @ concat fragments @ newline @ newline
                         @ ''[source_datas]:'' @ newline @ newline @ print_data)]
             | Some e \<Rightarrow> snd (body r) = Some e \<and> written (fst (body r)) = [])))
   \<and> (get_timestamp env = Inr ts \<and> get_chat_file_name env (chat_question rc) = Inr cname
        \<and> model_stream env (chat_question rc) = (cfragments, None) \<longrightarrow>
      (\<exists>r. chat_with_llm_api env rc = Inr r \<and> yielded (fst (body r)) = cfragments
         \<and> (case open_for_writing env
                   (os_path_join (chat_chat_record_dir rc) (ts @ ''Chat-'' @ cname @ ''.md'')) of
               None \<Rightarrow>
                 snd (body r) = None
                 \<and> written (fst (body r)) =
                     [(os_path_join (chat_chat_record_dir rc) (ts @ ''Chat-'' @ cname @ ''.md''),
                       (ts @ ''Chat-'' @ cname) @ newline @ newline @ ''[question]:'' @ newline
                         @ newline @ chat_question rc @ newline @ newline @ ''[answer]:''
                         @ newline @ newline @ concat cfragments)]
             | Some e \<Rightarrow> snd (body r) = Some e \<and> written (fst (body r)) = [])))"
proof -
  note a = completed_body [of env rq r rc r', unfolded query_record_def chat_record_def]
  note b = query_stream_complete
             [of env ts rq name source_nodes print_data fragments, unfolded query_record_def]
  note c = chat_stream_complete [of env ts rc cname cfragments, unfolded chat_record_def]
  show ?thesis
    by (intro conjI a [THEN conjunct1] a [THEN conjunct2] b c)
qed

lemma example_query_response:
  "query_from_documents_api example_deps example_query =
     Inr \<lparr>status_code = 200, media_type = ''text/plain'',
          body = ([Stdout ''Number of source nodes: 1'', Pulled ''Par'', Yielded ''Par'',
                   Pulled ''is'', Yielded ''is'',
                   FileWritten ''/records/20240101120000RAG-capital?.md''
                     (query_record ''20240101120000RAG-capital?'' ''capital?'' ''Paris''
                        ''Paris is the capital of France.'')], None)\<rparr>"
  by (simp add: query_from_documents_api_def query_try_def query_generate_def
      stream_then_write_eq forwarded_def Let_def os_path_join_def query_prompt_def
      example_deps_def example_query_def digit_char_def suffix_def)

lemma example_chat_response:
  "chat_with_llm_api example_deps example_chat =
     Inr \<lparr>status_code = 200, media_type = ''text/plain'',
          body = ([Pulled ''Par'', Yielded ''Par'', Pulled ''is'', Yielded ''is'',
                   FileWritten ''/records/20240101120000Chat-capital?.md''
                     (chat_record ''20240101120000Chat-capital?'' ''capital?'' ''Paris'')],
                  None)\<rparr>"
  by (simp add: chat_with_llm_api_def chat_try_def chat_generate_def
      stream_then_write_eq forwarded_def Let_def os_path_join_def
      example_deps_def example_chat_def suffix_def)

theorem transcript_is_streamed_answer_witness:
  "(\<exists>r. query_from_documents_api example_deps example_query = Inr r \<and> snd (body r) = None
        \<and> yielded (fst (body r)) = [''Par'', ''is'']
        \<and> (\<exists>path file_name print_data.
              written (fst (body r)) =
                [(path,
                  file_name @ newline @ newline @ ''[question]:'' @ newline @ newline
                    @ ''capital?'' @ newline @ newline @ ''[answer]:'' @ newline @ newline
                    @ concat [''Par'', ''is''] @ newline @ newline @ ''[source_datas]:''
                    @ newline @ newline @ print_data)]))
   \<and> (\<exists>r. chat_with_llm_api example_deps example_chat = Inr r \<and> snd (body r) = None
        \<and> yielded (fst (body r)) = [''Par'', ''is'']
        \<and> (\<exists>path file_name.
              written (fst (body r)) =
                [(path,
                  file_name @ newline @ newline @ ''[question]:'' @ newline @ newline
                    @ ''capital?'' @ newline @ newline @ ''[answer]:'' @ newline @ newline
                    @ concat [''Par'', ''is''])]))
   \<and> (\<exists>r. query_from_documents_api unwritable_deps example_query = Inr r
        \<and> yielded (fst (body r)) = [''Par'', ''is'']
        \<and> snd (body r) = Some (OSError ''Permission denied'')
        \<and> written (fst (body r)) = [])
   \<and> (\<exists>r. chat_with_llm_api unwritable_deps example_chat = Inr r
        \<and> yielded (fst (body r)) = [''Par'', ''is'']
        \<and> snd (body r) = Some (OSError ''Permission denied'')
        \<and> written (fst (body r)) = [])"
proof -
  let ?nodes = "[\<lparr>node_text = ''Paris is the capital of France.'', node_index = ''notes''\<rparr>]"
  obtain rq where q: "query_from_documents_api example_deps example_query = Inr rq"
    and qn: "snd (body rq) = None" and qy: "yielded (fst (body rq)) = [''Par'', ''is'']"
    using example_query_response by simp
  obtain rc where c: "chat_with_llm_api example_deps example_chat = Inr rc"
    and cn: "snd (body rc) = None" and cy: "yielded (fst (body rc)) = [''Par'', ''is'']"
    using example_chat_response by simp
  have qq: "query_question example_query = ''capital?''"
    and cq: "chat_question example_chat = ''capital?''"
    by (simp_all add: example_query_def example_chat_def)
  note t = transcript_is_streamed_answer
  from t [where env = example_deps and rq = example_query and r = rq,
          THEN conjunct1, THEN mp, OF conjI [OF q qn]]
  obtain path file_name print_data where
    "written (fst (body rq)) =
       [(path,
         file_name @ newline @ newline @ ''[question]:'' @ newline @ newline
           @ query_question example_query @ newline @ newline @ ''[answer]:'' @ newline
           @ newline @ concat (yielded (fst (body rq))) @ newline @ newline
           @ ''[source_datas]:'' @ newline @ newline @ print_data)]"
    by (elim exE conjE)
  then have 1: "\<exists>path file_name print_data.
      written (fst (body rq)) =
        [(path,
          file_name @ newline @ newline @ ''[question]:'' @ newline @ newline
            @ ''capital?'' @ newline @ newline @ ''[answer]:'' @ newline @ newline
            @ concat [''Par'', ''is''] @ newline @ newline @ ''[source_datas]:''
            @ newline @ newline @ print_data)]"
    unfolding qy qq by (intro exI)
  from t [where env = example_deps and rc = example_chat and r' = rc,
          THEN conjunct2, THEN conjunct1, THEN mp, OF conjI [OF c cn]]
  obtain path' file_name' where
    "written (fst (body rc)) =
       [(path',
         file_name' @ newline @ newline @ ''[question]:'' @ newline @ newline
           @ chat_question example_chat @ newline @ newline @ ''[answer]:'' @ newline
           @ newline @ concat (yielded (fst (body rc))))]"
    by (elim exE conjE)
  then have 2: "\<exists>path file_name.
      written (fst (body rc)) =
        [(path,
          file_name @ newline @ newline @ ''[question]:'' @ newline @ newline
            @ ''capital?'' @ newline @ newline @ ''[answer]:'' @ newline @ newline
            @ concat [''Par'', ''is''])]"
    unfolding cy cq by (intro exI)
  have o: "open_for_writing unwritable_deps p = Some (OSError ''Permission denied'')" for p
    by (simp add: unwritable_deps_def)
  have hq: "get_timestamp unwritable_deps = Inr ''20240101120000''
      \<and> get_chat_file_name unwritable_deps (query_question example_query) = Inr ''capital?''
      \<and> basic_query_from_documents unwritable_deps (query_question example_query)
           (query_index_names example_query) (query_similarity_top_k example_query)
           = Inr ?nodes
      \<and> print_data_sources unwritable_deps ?nodes = Inr ''Paris is the capital of France.''
      \<and> model_stream unwritable_deps
           (query_prompt (str_join newline (map node_text ?nodes))
              (query_question example_query)) = ([''Par'', ''is''], None)"
    by (simp add: unwritable_deps_def example_deps_def example_query_def)
  have hc: "get_timestamp unwritable_deps = Inr ''20240101120000''
      \<and> get_chat_file_name unwritable_deps (chat_question example_chat) = Inr ''capital?''
      \<and> model_stream unwritable_deps (chat_question example_chat) = ([''Par'', ''is''], None)"
    by (simp add: unwritable_deps_def example_deps_def example_chat_def)
  from t [where env = unwritable_deps and rq = example_query,
          THEN conjunct2, THEN conjunct2, THEN conjunct1, THEN mp, OF hq]
  obtain r3 where q3: "query_from_documents_api unwritable_deps example_query = Inr r3"
    and y3: "yielded (fst (body r3)) = [''Par'', ''is'']"
    and e3: "snd (body r3) = Some (OSError ''Permission denied'')"
    and w3: "written (fst (body r3)) = []"
    unfolding o option.case by (elim exE conjE)
  from t [where env = unwritable_deps and rc = example_chat,
          THEN conjunct2, THEN conjunct2, THEN conjunct2, THEN mp, OF hc]
  obtain r4 where q4: "chat_with_llm_api unwritable_deps example_chat = Inr r4"
    and y4: "yielded (fst (body r4)) = [''Par'', ''is'']"
    and e4: "snd (body r4) = Some (OSError ''Permission denied'')"
    and w4: "written (fst (body r4)) = []"
    unfolding o option.case by (elim exE conjE)
  show ?thesis
    by (intro conjI exI [of _ rq] exI [of _ rc] exI [of _ r3] exI [of _ r4]
        q qn qy 1 c cn cy 2 q3 y3 e3 w3 q4 y4 e4 w4)
qed

text \<open>
  The claim C6 as first stated has the file written exactly once whenever the stream
  completes. Here the model's stream completes and both its fragments are yielded to
  the caller, but the transcript file cannot be opened: nothing is written.
\<close>

theorem transcript_not_written_when_open_fails:
  "chat_with_llm_api unwritable_deps example_chat =
     Inr \<lparr>status_code = 200, media_type = ''text/plain'',
          body = ([Pulled ''Par'', Yielded ''Par'', Pulled ''is'', Yielded ''is''],
                  Some (OSError ''Permission denied''))\<rparr>
   \<and> model_stream unwritable_deps (chat_question example_chat) = ([''Par'', ''is''], None)
   \<and> yielded [Pulled ''Par'', Yielded ''Par'', Pulled ''is'', Yielded ''is'']
        = [''Par'', ''is'']
   \<and> written [Pulled ''Par'', Yielded ''Par'', Pulled ''is'', Yielded ''is''] = []"
  by (simp add: chat_with_llm_api_def chat_try_def chat_generate_def stream_then_write_eq
      forwarded_def Let_def unwritable_deps_def example_deps_def example_chat_def)

text \<open>
  C9. When the timestamp and the sanitized question are computed, the handler returns a
  response whose body writes no file but the transcript, at
  \<^verbatim>\<open>os.path.join(chat_record_dir, timestamp + prefix + "-" + sanitized + ".md")\<close>, with
  the prefix \<^verbatim>\<open>RAG\<close> for \<^verbatim>\<open>/query\<close> and \<^verbatim>\<open>Chat\<close> for \<^verbatim>\<open>/chat\<close>, and writes it once when
  it completes. For a file name that does not start with a slash the join is the
  directory, a slash and the file name, the slash being the directory's own when it ends
  with one.
\<close>

theorem transcript_path:
  assumes "get_timestamp env = Inr ts"
    and "get_chat_file_name env (query_question rq) = Inr qname"
    and "get_chat_file_name env (chat_question rc) = Inr cname"
  shows "(\<exists>r. query_from_documents_api env rq = Inr r
            \<and> (\<forall>pc \<in> set (written (fst (body r))).
                 fst pc = os_path_join (query_chat_record_dir rq)
                            (ts @ ''RAG-'' @ qname @ ''.md''))
            \<and> (snd (body r) = None \<longrightarrow> length (written (fst (body r))) = 1))
       \<and> (\<exists>r. chat_with_llm_api env rc = Inr r
            \<and> (\<forall>pc \<in> set (written (fst (body r))).
                 fst pc = os_path_join (chat_chat_record_dir rc)
                            (ts @ ''Chat-'' @ cname @ ''.md''))
            \<and> (snd (body r) = None \<longrightarrow> length (written (fst (body r))) = 1))
       \<and> (\<forall>dir file. dir \<noteq> [] \<and> \<not> suffix ''/'' dir \<and> \<not> prefix ''/'' file \<longrightarrow>
              os_path_join dir file = dir @ ''/'' @ file)
       \<and> (\<forall>dir file. \<not> prefix ''/'' file \<longrightarrow>
              os_path_join (dir @ ''/'') file = dir @ ''/'' @ file)"
proof (intro conjI)
  let ?qp = "os_path_join (query_chat_record_dir rq) (ts @ ''RAG-'' @ qname @ ''.md'')"
  let ?qr = "\<lparr>status_code = 200, media_type = ''text/plain'',
              body = query_generate env rq (ts @ ''RAG-'' @ qname) ?qp\<rparr>"
  have q: "query_from_documents_api env rq = Inr ?qr"
    using assms by (simp add: query_from_documents_api_def query_try_def Let_def)
  have q1: "\<forall>pc \<in> set (written (fst (body ?qr))). fst pc = ?qp"
    using written_query_generate by fastforce
  have q2: "snd (body ?qr) = None \<longrightarrow> length (written (fst (body ?qr))) = 1"
  proof
    assume "snd (body ?qr) = None"
    then have "query_generate env rq (ts @ ''RAG-'' @ qname) ?qp
                 = (fst (query_generate env rq (ts @ ''RAG-'' @ qname) ?qp), None)"
      by (simp add: prod_eq_iff)
    from query_generate_completes [OF this] show "length (written (fst (body ?qr))) = 1"
      by (auto simp: written_append written_forwarded)
  qed
  show "\<exists>r. query_from_documents_api env rq = Inr r
            \<and> (\<forall>pc \<in> set (written (fst (body r))).
                 fst pc = os_path_join (query_chat_record_dir rq)
                            (ts @ ''RAG-'' @ qname @ ''.md''))
            \<and> (snd (body r) = None \<longrightarrow> length (written (fst (body r))) = 1)"
    by (intro exI [of _ ?qr] conjI q q1 q2)
next
  let ?cp = "os_path_join (chat_chat_record_dir rc) (ts @ ''Chat-'' @ cname @ ''.md'')"
  let ?cr = "\<lparr>status_code = 200, media_type = ''text/plain'',
              body = chat_generate env rc (ts @ ''Chat-'' @ cname) ?cp\<rparr>"
  have c: "chat_with_llm_api env rc = Inr ?cr"
    using assms by (simp add: chat_with_llm_api_def chat_try_def Let_def)
  have c1: "\<forall>pc \<in> set (written (fst (body ?cr))). fst pc = ?cp"
    using written_chat_generate by fastforce
  have c2: "snd (body ?cr) = None \<longrightarrow> length (written (fst (body ?cr))) = 1"
  proof
    assume "snd (body ?cr) = None"
    then have "chat_generate env rc (ts @ ''Chat-'' @ cname) ?cp
                 = (fst (chat_generate env rc (ts @ ''Chat-'' @ cname) ?cp), None)"
      by (simp add: prod_eq_iff)
    from chat_generate_completes [OF this] show "length (written (fst (body ?cr))) = 1"
      by (auto simp: written_append written_forwarded)
  qed
  show "\<exists>r. chat_with_llm_api env rc = Inr r
            \<and> (\<forall>pc \<in> set (written (fst (body r))).
                 fst pc = os_path_join (chat_chat_record_dir rc)
                            (ts @ ''Chat-'' @ cname @ ''.md''))
            \<and> (snd (body r) = None \<longrightarrow> length (written (fst (body r))) = 1)"
    by (intro exI [of _ ?cr] conjI c c1 c2)
next
  show "\<forall>dir file. dir \<noteq> [] \<and> \<not> suffix ''/'' dir \<and> \<not> prefix ''/'' file \<longrightarrow>
          os_path_join dir file = dir @ ''/'' @ file"
    by (simp add: os_path_join_def)
next
  show "\<forall>dir file. \<not> prefix ''/'' file \<longrightarrow>
          os_path_join (dir @ ''/'') file = dir @ ''/'' @ file"
    by (simp add: os_path_join_def)
qed

lemma single_path:
  "length xs = 1 \<Longrightarrow> \<forall>pc \<in> set xs. fst pc = p \<Longrightarrow> map fst xs = [p]"
  by (cases xs) auto

theorem transcript_path_witness:
  "(\<exists>r. query_from_documents_api example_deps example_query = Inr r
        \<and> map fst (written (fst (body r))) = [''/records/20240101120000RAG-capital?.md''])
   \<and> (\<exists>r. chat_with_llm_api example_deps example_chat = Inr r
        \<and> map fst (written (fst (body r))) = [''/records/20240101120000Chat-capital?.md''])"
proof -
  have t: "get_timestamp example_deps = Inr ''20240101120000''"
    and qn: "get_chat_file_name example_deps (query_question example_query) = Inr ''capital?''"
    and cn: "get_chat_file_name example_deps (chat_question example_chat) = Inr ''capital?''"
    by (simp_all add: example_deps_def example_query_def example_chat_def)
  have qp: "os_path_join (query_chat_record_dir example_query)
              (''20240101120000'' @ ''RAG-'' @ ''capital?'' @ ''.md'')
            = ''/records/20240101120000RAG-capital?.md''"
    by (simp add: os_path_join_def example_query_def suffix_def)
  have cp: "os_path_join (chat_chat_record_dir example_chat)
              (''20240101120000'' @ ''Chat-'' @ ''capital?'' @ ''.md'')
            = ''/records/20240101120000Chat-capital?.md''"
    by (simp add: os_path_join_def example_chat_def suffix_def)
  note p = transcript_path [OF t qn cn, unfolded qp cp]
  from p [THEN conjunct1] obtain r where
    q: "query_from_documents_api example_deps example_query = Inr r"
    and qa: "\<forall>pc \<in> set (written (fst (body r))).
          fst pc = ''/records/20240101120000RAG-capital?.md''"
    and ql: "snd (body r) = None \<longrightarrow> length (written (fst (body r))) = 1"
    by (elim exE conjE)
  from p [THEN conjunct2, THEN conjunct1] obtain r' where
    c: "chat_with_llm_api example_deps example_chat = Inr r'"
    and ca: "\<forall>pc \<in> set (written (fst (body r'))).
          fst pc = ''/records/20240101120000Chat-capital?.md''"
    and cl: "snd (body r') = None \<longrightarrow> length (written (fst (body r'))) = 1"
    by (elim exE conjE)
  have "snd (body r) = None"
    using q unfolding example_query_response by auto
  with ql have "length (written (fst (body r))) = 1" by (rule mp)
  from single_path [OF this qa]
  have 1: "map fst (written (fst (body r))) = [''/records/20240101120000RAG-capital?.md'']" .
  have "snd (body r') = None"
    using c unfolding example_chat_response by auto
  with cl have "length (written (fst (body r'))) = 1" by (rule mp)
  from single_path [OF this ca]
  have 2: "map fst (written (fst (body r'))) = [''/records/20240101120000Chat-capital?.md'']" .
  show ?thesis
    by (intro conjI exI [of _ r] exI [of _ r'] q c 1 2)
qed




end
